theory Spec2Isabelle
  imports Main "HOL-Library.Sublist"
begin

section \<open>The career guidance chatbot (BOT.py)\<close>

text \<open>
  The program is one Python module. Its own code is the knowledge table
  (\<open>load_career_data\<close>), the prompt template (\<open>get_prompt_template\<close>), the call of
  the model (\<open>chatbot_response\<close>), the history store (\<open>get_session_history\<close>) and the
  page script (\<open>main\<close>), which the user interface framework runs from top to bottom
  once per interaction. Dictionaries whose order is observable (the knowledge table is
  serialised into the prompt) are association lists; the session state of the framework
  is a map from keys to stored objects.
\<close>

subsection \<open>Knowledge table\<close>

type_synonym career_entry = "(string \<times> string list) list"

type_synonym career_table = "(string \<times> career_entry) list"

definition load_career_data :: career_table where
  "load_career_data =
     [(''Computer Science'',
         [(''careers'', [''Software Engineer'', ''Data Scientist'', ''Cybersecurity Analyst'']),
          (''skills'', [''Python'', ''Java'', ''Data Analysis'', ''Cybersecurity'']),
          (''resources'', [''Coursera'', ''LeetCode'', ''TryHackMe''])]),
      (''Business'',
         [(''careers'', [''Marketing Manager'', ''Financial Analyst'', ''Entrepreneur'']),
          (''skills'', [''Marketing'', ''Finance'', ''Leadership'']),
          (''resources'', [''LinkedIn Learning'', ''Coursera'', ''Harvard Business Review''])]),
      (''Biology'',
         [(''careers'', [''Biomedical Researcher'', ''Environmental Scientist'', ''Pharmacist'']),
          (''skills'', [''Research'', ''Lab Techniques'', ''Data Analysis'']),
          (''resources'', [''PubMed'', ''Khan Academy'', ''Nature Journal''])])]"

text \<open>Subscripting a dictionary: a missing key raises \<open>KeyError\<close>, here \<open>None\<close>.\<close>

definition field :: "career_entry \<Rightarrow> string \<Rightarrow> string list option" where
  "field e k = map_of e k"

definition nonempty_field :: "career_entry \<Rightarrow> string \<Rightarrow> bool" where
  "nonempty_field e k = (case field e k of None \<Rightarrow> False | Some xs \<Rightarrow> xs \<noteq> [])"

subsection \<open>Session state and the history store\<close>

text \<open>
  A transcript entry is the dictionary \<open>{"role": r, "content": c}\<close>. A message of a
  model history is a human or an assistant message with its text.
\<close>

record turn =
  role :: string
  content :: string

datatype message = SystemMessage string | HumanMessage string | AIMessage string

text \<open>
  The session state is one dictionary. \<open>main\<close> keeps the transcript, a plain list of
  turns, under the key \<open>messages\<close>; \<open>get_session_history\<close> keeps a history object
  under each session id in the same dictionary.
\<close>

datatype stored = PyList "turn list" | ChatMessageHistory "message list"

type_synonym session_state = "string \<rightharpoonup> stored"

text \<open>
  \<open>get_session_history\<close> returns the object stored under the id, after storing a new
  empty history when the id is absent. The object is returned by reference: it is the
  one the new state holds under the id.
\<close>

definition get_session_history :: "string \<Rightarrow> session_state \<Rightarrow> stored \<times> session_state" where
  "get_session_history session_id ss =
     (case ss session_id of
        None \<Rightarrow> (ChatMessageHistory [], ss(session_id \<mapsto> ChatMessageHistory []))
      | Some h \<Rightarrow> (h, ss))"

text \<open>An exception, with the text \<open>str(e)\<close> that the page shows.\<close>

datatype exn = Exception string

text \<open>
  Appending to a history is the history object's \<open>add_message\<close>, which adds the message
  at the end of the object's list. A plain list has no such method: the call raises and
  nothing is stored.
\<close>

definition add_message ::
  "string \<Rightarrow> message \<Rightarrow> session_state \<Rightarrow> (exn + unit) \<times> session_state" where
  "add_message session_id m ss =
     (case get_session_history session_id ss of
        (ChatMessageHistory ms, ss') \<Rightarrow>
          (Inr (), ss'(session_id \<mapsto> ChatMessageHistory (ms @ [m])))
      | (PyList ts, ss') \<Rightarrow> (Inl (Exception ''AttributeError''), ss'))"

fun add_messages ::
  "string \<Rightarrow> message list \<Rightarrow> session_state \<Rightarrow> (exn + unit) \<times> session_state" where
  "add_messages session_id [] ss = (Inr (), ss)"
| "add_messages session_id (m # ms) ss =
     (case add_message session_id m ss of
        (Inl e, ss') \<Rightarrow> (Inl e, ss')
      | (Inr u, ss') \<Rightarrow> add_messages session_id ms ss')"

text \<open>What a request presenting a session id observes: the object the store returns.\<close>

definition observed :: "string \<Rightarrow> session_state \<Rightarrow> stored" where
  "observed session_id ss = fst (get_session_history session_id ss)"

subsection \<open>Serialising the knowledge table\<close>

text \<open>
  \<open>json.dumps(career_data, indent=2)\<close>: strings are quoted and escaped for ASCII output,
  a non-empty list or dictionary puts each item on a line of its own, indented by two
  spaces per nesting level, items separated by a comma, a key and its value by a colon
  and a space. An empty list is \<open>[]\<close>, an empty dictionary \<open>{}\<close>. Characters
  are code points below 256.
\<close>

definition hex_digit :: "nat \<Rightarrow> char" where
  "hex_digit n = ''0123456789abcdef'' ! (n mod 16)"

definition escape_char :: "char \<Rightarrow> string" where
  "escape_char c =
     (if c = CHR 0x22 then [CHR 0x5C, CHR 0x22]
      else if c = CHR 0x5C then [CHR 0x5C, CHR 0x5C]
      else if c = CHR 0x08 then [CHR 0x5C, CHR ''b'']
      else if c = CHR 0x0C then [CHR 0x5C, CHR ''f'']
      else if c = CHR 0x0A then [CHR 0x5C, CHR ''n'']
      else if c = CHR 0x0D then [CHR 0x5C, CHR ''r'']
      else if c = CHR 0x09 then [CHR 0x5C, CHR ''t'']
      else if 32 \<le> (of_char c :: nat) \<and> (of_char c :: nat) \<le> 126 then [c]
      else [CHR 0x5C, CHR ''u'', CHR ''0'', CHR ''0'',
            hex_digit (of_char c div 16), hex_digit (of_char c)])"

definition json_str :: "string \<Rightarrow> string" where
  "json_str s = [CHR 0x22] @ concat (map escape_char s) @ [CHR 0x22]"

definition newline_indent :: "nat \<Rightarrow> string" where
  "newline_indent level = CHR 0x0A # replicate (2 * level) CHR '' ''"

fun join :: "string \<Rightarrow> string list \<Rightarrow> string" where
  "join sep [] = []"
| "join sep [x] = x"
| "join sep (x # y # ys) = x @ sep @ join sep (y # ys)"

definition json_items :: "nat \<Rightarrow> string list \<Rightarrow> string" where
  "json_items level items =
     newline_indent (Suc level) @ join ('','' @ newline_indent (Suc level)) items
     @ newline_indent level"

definition json_list :: "nat \<Rightarrow> string list \<Rightarrow> string" where
  "json_list level xs =
     (if xs = [] then ''[]'' else ''['' @ json_items level (map json_str xs) @ '']'')"

definition json_entry :: "nat \<Rightarrow> career_entry \<Rightarrow> string" where
  "json_entry level e =
     (if e = [] then ''{}''
      else ''{'' @ json_items level
             (map (\<lambda>(k, xs). json_str k @ '': '' @ json_list (Suc level) xs) e) @ ''}'')"

definition json_dumps :: "career_table \<Rightarrow> string" where
  "json_dumps t =
     (if t = [] then ''{}''
      else ''{'' @ json_items 0
             (map (\<lambda>(k, e). json_str k @ '': '' @ json_entry 1 e) t) @ ''}'')"

subsection \<open>Prompt template\<close>

text \<open>
  A template text is the sequence of its literal stretches and its replacement fields
  \<open>{name}\<close>. Formatting replaces each field by the text of the variable of that
  name, unchanged, and raises \<open>KeyError\<close> for a variable that is not supplied.
\<close>

datatype piece = Lit string | Field string

definition instruction_head :: string where
  "instruction_head = ''\<newline>You are a career guidance chatbot designed for undergraduates. Your goal is to provide personalized, concise, and actionable career advice based on the user's academic major, interests, and skills. Use the following knowledge base for reference:\<newline>\<newline>''"

definition instruction_tail :: string where
  "instruction_tail = ''\<newline>\<newline>Analyze the user's major and input to suggest relevant career paths, skills to develop, and learning resources. If the major is not in the knowledge base, reason about related fields and provide plausible suggestions. Keep responses friendly, professional, and under 200 words.\<newline>''"

definition template :: "piece list" where
  "template =
     [Lit instruction_head, Field ''career_data'',
      Lit ''\<newline>\<newline>Conversation history:\<newline>'', Field ''chat_history'',
      Lit ''\<newline>\<newline>User input: Major: '', Field ''major'',
      Lit ''\<newline>Input: '', Field ''user_input'',
      Lit instruction_tail]"

definition human_template :: "piece list" where
  "human_template =
     [Lit ''Major: '', Field ''major'', Lit ''\<newline>Input: '', Field ''user_input'']"

datatype prompt_part =
  SystemTemplate "piece list" | MessagesPlaceholder string | HumanTemplate "piece list"

definition get_prompt_template :: "prompt_part list" where
  "get_prompt_template =
     [SystemTemplate template, MessagesPlaceholder ''chat_history'', HumanTemplate human_template]"

text \<open>
  A variable of a prompt is a text or a list of messages. In a text template a list of
  messages appears as its printed form, which the message library decides: \<open>repr\<close>.
\<close>

datatype pyval = Str string | Messages "message list"

type_synonym variables = "string \<rightharpoonup> pyval"

fun str_of :: "(message list \<Rightarrow> string) \<Rightarrow> pyval \<Rightarrow> string" where
  "str_of repr (Str s) = s"
| "str_of repr (Messages ms) = repr ms"

fun format_pieces ::
  "(message list \<Rightarrow> string) \<Rightarrow> variables \<Rightarrow> piece list \<Rightarrow> exn + string" where
  "format_pieces repr vars [] = Inr []"
| "format_pieces repr vars (Lit s # ps) =
     (case format_pieces repr vars ps of Inl e \<Rightarrow> Inl e | Inr rest \<Rightarrow> Inr (s @ rest))"
| "format_pieces repr vars (Field f # ps) =
     (case vars f of
        None \<Rightarrow> Inl (Exception ''KeyError'')
      | Some v \<Rightarrow>
          (case format_pieces repr vars ps of
             Inl e \<Rightarrow> Inl e
           | Inr rest \<Rightarrow> Inr (str_of repr v @ rest)))"

fun format_part ::
  "(message list \<Rightarrow> string) \<Rightarrow> variables \<Rightarrow> prompt_part \<Rightarrow> exn + message list" where
  "format_part repr vars (SystemTemplate ps) =
     (case format_pieces repr vars ps of Inl e \<Rightarrow> Inl e | Inr s \<Rightarrow> Inr [SystemMessage s])"
| "format_part repr vars (HumanTemplate ps) =
     (case format_pieces repr vars ps of Inl e \<Rightarrow> Inl e | Inr s \<Rightarrow> Inr [HumanMessage s])"
| "format_part repr vars (MessagesPlaceholder name) =
     (case vars name of
        None \<Rightarrow> Inl (Exception ''KeyError'')
      | Some (Str s) \<Rightarrow> Inl (Exception ''ValueError'')
      | Some (Messages ms) \<Rightarrow> Inr ms)"

fun format_messages ::
  "(message list \<Rightarrow> string) \<Rightarrow> variables \<Rightarrow> prompt_part list \<Rightarrow> exn + message list" where
  "format_messages repr vars [] = Inr []"
| "format_messages repr vars (p # ps) =
     (case format_part repr vars p of
        Inl e \<Rightarrow> Inl e
      | Inr ms \<Rightarrow>
          (case format_messages repr vars ps of
             Inl e \<Rightarrow> Inl e
           | Inr rest \<Rightarrow> Inr (ms @ rest)))"

subsection \<open>The world of a run\<close>

text \<open>
  What a run of the page script reads and changes: the files (the \<open>.env\<close> file, as
  the bindings it holds), the environment of the process, the session state, the
  elements rendered on the page, and the prompts sent to the model service.
\<close>

datatype ui_event =
  Title string | Write string | Error string | TextInput string | ChatMessage string string

record world =
  files :: "string \<rightharpoonup> (string \<rightharpoonup> string)"
  environ :: "string \<rightharpoonup> string"
  session_state :: session_state
  ui :: "ui_event list"
  calls :: "message list list"

definition emit :: "ui_event \<Rightarrow> world \<Rightarrow> world" where
  "emit ev w = w\<lparr>ui := ui w @ [ev]\<rparr>"

text \<open>
  \<open>load_dotenv()\<close>, a function of the dotenv library that the module calls, without
  arguments, when it is loaded (line 12): the bindings of the \<open>.env\<close> file, if there is
  one, are added to the environment, where a variable that is already set keeps its value.
\<close>

definition load_dotenv :: "world \<Rightarrow> world" where
  "load_dotenv w =
     (case files w ''.env'' of
        None \<Rightarrow> w
      | Some bindings \<Rightarrow> w\<lparr>environ := bindings ++ environ w\<rparr>)"

subsection \<open>The model call\<close>

text \<open>
  The model of the service is a parameter: given the prompt, it replies with a text or
  raises. \<open>prompt | llm\<close> formats the prompt and calls the model with it.
\<close>

type_synonym llm = "message list \<Rightarrow> exn + string"

type_synonym chain = "variables \<Rightarrow> world \<Rightarrow> (exn + message) \<times> world"

definition pipe :: "(message list \<Rightarrow> string) \<Rightarrow> prompt_part list \<Rightarrow> llm \<Rightarrow> chain" where
  "pipe repr prompt llm vars w =
     (case format_messages repr vars prompt of
        Inl e \<Rightarrow> (Inl e, w)
      | Inr msgs \<Rightarrow>
          (case llm msgs of
             Inl e \<Rightarrow> (Inl e, w\<lparr>calls := calls w @ [msgs]\<rparr>)
           | Inr reply \<Rightarrow> (Inr (AIMessage reply), w\<lparr>calls := calls w @ [msgs]\<rparr>)))"

text \<open>
  \<open>RunnableWithMessageHistory\<close> is a class of the chain library, which the program
  imports and instantiates in \<open>main\<close>; it is not code of the program. It is modelled by
  what the library does with the arguments the program gives it: it fetches the history of
  the session id through the factory, supplies the history's messages as the history
  variable, runs the chain, and when the chain has returned appends the input message and
  the reply to the history. When the chain raises, nothing is appended.
\<close>

type_synonym runnable = "variables \<Rightarrow> string \<Rightarrow> world \<Rightarrow> (exn + message) \<times> world"

definition input_messages :: "pyval \<Rightarrow> message list" where
  "input_messages v = (case v of Str s \<Rightarrow> [HumanMessage s] | Messages ms \<Rightarrow> ms)"

definition RunnableWithMessageHistory ::
  "chain \<Rightarrow> (string \<Rightarrow> session_state \<Rightarrow> stored \<times> session_state) \<Rightarrow> string \<Rightarrow> string
   \<Rightarrow> runnable" where
  "RunnableWithMessageHistory chain get_history input_messages_key history_messages_key
     vars session_id w =
     (case get_history session_id (session_state w) of
        (PyList ts, ss1) \<Rightarrow> (Inl (Exception ''AttributeError''), w\<lparr>session_state := ss1\<rparr>)
      | (ChatMessageHistory hist, ss1) \<Rightarrow>
          (case chain (vars(history_messages_key \<mapsto> Messages hist))
                  (w\<lparr>session_state := ss1\<rparr>) of
             (Inl e, w2) \<Rightarrow> (Inl e, w2)
           | (Inr output, w2) \<Rightarrow>
               (case vars input_messages_key of
                  None \<Rightarrow> (Inl (Exception ''KeyError''), w2)
                | Some v \<Rightarrow>
                    (case add_messages session_id (input_messages v @ [output])
                            (session_state w2) of
                       (Inl e, ss3) \<Rightarrow> (Inl e, w2\<lparr>session_state := ss3\<rparr>)
                     | (Inr u, ss3) \<Rightarrow> (Inr output, w2\<lparr>session_state := ss3\<rparr>)))))"

fun content_of :: "message \<Rightarrow> string" where
  "content_of (SystemMessage s) = s"
| "content_of (HumanMessage s) = s"
| "content_of (AIMessage s) = s"

text \<open>
  \<open>chatbot_response\<close>. The session id is optional and defaults to \<open>default\<close>.
\<close>

definition chatbot_response ::
  "string \<Rightarrow> string \<Rightarrow> runnable \<Rightarrow> career_table \<Rightarrow> string option \<Rightarrow> world
   \<Rightarrow> (exn + string) \<times> world" where
  "chatbot_response user_input major runnable career_data session_id_arg w =
     (let session_id = (case session_id_arg of None \<Rightarrow> ''default'' | Some s \<Rightarrow> s);
          career_data_str = json_dumps career_data
      in case runnable [''career_data'' \<mapsto> Str career_data_str, ''major'' \<mapsto> Str major,
                        ''user_input'' \<mapsto> Str user_input] session_id w of
           (Inl e, w') \<Rightarrow> (Inl e, w')
         | (Inr response, w') \<Rightarrow> (Inr (content_of response), w'))"

subsection \<open>The page script\<close>

text \<open>The values of the three text fields at a run.\<close>

record inputs =
  api_key_field :: string
  major_field :: string
  question_field :: string

definition init_messages :: "session_state \<Rightarrow> session_state" where
  "init_messages ss = (if ''messages'' \<in> dom ss then ss else ss(''messages'' \<mapsto> PyList []))"

text \<open>
  Lines 86 to 92: the key of the environment, or else the key typed into the page; with
  neither, the run ends (\<open>None\<close>). An empty text counts as no key.
\<close>

definition resolve_api_key :: "inputs \<Rightarrow> world \<Rightarrow> string option \<times> world" where
  "resolve_api_key inp w =
     (let api_key = (case environ w ''GOOGLE_API_KEY'' of None \<Rightarrow> [] | Some k \<Rightarrow> k)
      in if api_key = [] then
           (let w1 = emit (Error ''Gemini API key not found in .env file. Please enter it below.'') w;
                w2 = emit (TextInput ''Enter your Gemini API key:'') w1;
                api_key = api_key_field inp
            in if api_key = [] then
                 (None, emit (Error ''Gemini API key is required to proceed.'') w2)
               else (Some api_key, w2))
         else (Some api_key, w))"

text \<open>
  Lines 116 to 118: the transcript is rendered from top to bottom. Iterating over
  anything but the list of turns raises.
\<close>

definition display_history :: "world \<Rightarrow> (exn + unit) \<times> world" where
  "display_history w =
     (case session_state w ''messages'' of
        None \<Rightarrow> (Inl (Exception ''AttributeError''), w)
      | Some (ChatMessageHistory ms) \<Rightarrow> (Inl (Exception ''TypeError''), w)
      | Some (PyList ts) \<Rightarrow>
          (Inr (), w\<lparr>ui := ui w @ map (\<lambda>m. ChatMessage (role m) (content m)) ts\<rparr>))"

definition append_turn :: "turn \<Rightarrow> world \<Rightarrow> (exn + unit) \<times> world" where
  "append_turn t w =
     (case session_state w ''messages'' of
        Some (PyList ts) \<Rightarrow>
          (Inr (), w\<lparr>session_state := (session_state w)(''messages'' \<mapsto> PyList (ts @ [t]))\<rparr>)
      | _ \<Rightarrow> (Inl (Exception ''AttributeError''), w))"

text \<open>Line 124, with the echo of the question before it.\<close>

definition append_user_turn :: "string \<Rightarrow> world \<Rightarrow> (exn + unit) \<times> world" where
  "append_user_turn user_input w =
     append_turn \<lparr>role = ''user'', content = user_input\<rparr> (emit (ChatMessage ''user'' user_input) w)"

text \<open>
  Lines 121 to 133. The call of the model and the appending of the reply are inside the
  \<open>try\<close>: any exception there is shown as an error message and the run ends normally.
\<close>

definition handle_input ::
  "string \<Rightarrow> string \<Rightarrow> runnable \<Rightarrow> career_table \<Rightarrow> world \<Rightarrow> (exn + unit) \<times> world" where
  "handle_input user_input major runnable_with_history career_data w =
     (if user_input \<noteq> [] \<and> major \<noteq> [] then
        (case append_user_turn user_input w of
           (Inl e, w1) \<Rightarrow> (Inl e, w1)
         | (Inr u, w1) \<Rightarrow>
             (case (case chatbot_response user_input major runnable_with_history
                            career_data None w1 of
                      (Inl e, w2) \<Rightarrow> (Inl e, w2)
                    | (Inr response, w2) \<Rightarrow>
                        append_turn \<lparr>role = ''assistant'', content = response\<rparr>
                          (emit (ChatMessage ''assistant'' response) w2)) of
                (Inl (Exception msg), w3) \<Rightarrow>
                  (Inr (), emit (Error (''Error generating response: '' @ msg)) w3)
              | (Inr u, w3) \<Rightarrow> (Inr (), w3)))
      else (Inr (), w))"

text \<open>
  \<open>main\<close>. The constructor of the model client is a parameter: given the model name and
  the key it returns the model or raises.
\<close>

definition main ::
  "(string \<Rightarrow> string \<Rightarrow> exn + llm) \<Rightarrow> (message list \<Rightarrow> string) \<Rightarrow> inputs \<Rightarrow> world
   \<Rightarrow> (exn + unit) \<times> world" where
  "main ChatGoogleGenerativeAI repr inp w =
     (let w1 = emit (Title ''AI Career Guidance Chatbot for Undergraduates'') w;
          w2 = emit (Write ''Enter your academic major and ask for career advice!'') w1;
          w3 = w2\<lparr>session_state := init_messages (session_state w2)\<rparr>;
          career_data = load_career_data
      in case resolve_api_key inp w3 of
           (None, w4) \<Rightarrow> (Inr (), w4)
         | (Some api_key, w4) \<Rightarrow>
             (case ChatGoogleGenerativeAI ''gemini-1.5-flash'' api_key of
                Inl (Exception msg) \<Rightarrow>
                  (Inr (), emit (Error (''Failed to initialize Gemini model: '' @ msg)) w4)
              | Inr llm \<Rightarrow>
                  (let prompt = get_prompt_template;
                       runnable = pipe repr prompt llm;
                       runnable_with_history =
                         RunnableWithMessageHistory runnable get_session_history
                           ''user_input'' ''chat_history'';
                       w5 = emit (TextInput
                         ''Enter your academic major (e.g., Computer Science, Business, Biology):'') w4;
                       w6 = emit (TextInput ''Ask a career-related question:'') w5
                   in case display_history w6 of
                        (Inl e, w7) \<Rightarrow> (Inl e, w7)
                      | (Inr u, w7) \<Rightarrow>
                          handle_input (question_field inp) (major_field inp)
                            runnable_with_history career_data w7)))"

text \<open>One run of the module: the environment file is loaded, then \<open>main\<close> runs.\<close>

definition script ::
  "(string \<Rightarrow> string \<Rightarrow> exn + llm) \<Rightarrow> (message list \<Rightarrow> string) \<Rightarrow> inputs \<Rightarrow> world
   \<Rightarrow> (exn + unit) \<times> world" where
  "script ChatGoogleGenerativeAI repr inp w = main ChatGoogleGenerativeAI repr inp (load_dotenv w)"

text \<open>The transcript a state shows: the turns stored under \<open>messages\<close>.\<close>

definition transcript :: "session_state \<Rightarrow> turn list" where
  "transcript ss = (case ss ''messages'' of Some (PyList ts) \<Rightarrow> ts | _ \<Rightarrow> [])"

subsection \<open>Notions used to state the properties\<close>

text \<open>
  The prompt for a table, a major, a question and a history (spec 4.2): the system message
  with the instruction text around the serialised knowledge table, the printed history
  and the major and question, then the prior turns in order, then the latest major and
  question. It is compared below with what formatting the template of the code produces,
  and its text is given there word for word.
\<close>

definition expected_prompt ::
  "(message list \<Rightarrow> string) \<Rightarrow> career_table \<Rightarrow> string \<Rightarrow> string \<Rightarrow> message list
   \<Rightarrow> message list" where
  "expected_prompt repr career_data major user_input hist =
     SystemMessage
       (instruction_head @ json_dumps career_data
        @ ''\<newline>\<newline>Conversation history:\<newline>'' @ repr hist
        @ ''\<newline>\<newline>User input: Major: '' @ major
        @ ''\<newline>Input: '' @ user_input @ instruction_tail)
     # hist @ [HumanMessage (''Major: '' @ major @ ''\<newline>Input: '' @ user_input)]"

text \<open>
  The runnable that \<open>main\<close> builds (lines 96 to 104) from the model it was given.
\<close>

definition runnable_with_history :: "(message list \<Rightarrow> string) \<Rightarrow> llm \<Rightarrow> runnable" where
  "runnable_with_history repr llm =
     RunnableWithMessageHistory (pipe repr get_prompt_template llm) get_session_history
       ''user_input'' ''chat_history''"

text \<open>The messages of the history stored under a session id, none when there is no history.\<close>

definition history :: "string \<Rightarrow> session_state \<Rightarrow> message list" where
  "history session_id ss =
     (case ss session_id of Some (ChatMessageHistory ms) \<Rightarrow> ms | _ \<Rightarrow> [])"

text \<open>
  The states the program itself produces: the transcript key holds a list of turns (or is
  not yet set) and the key \<open>default\<close> holds a history (or is not yet set).
\<close>

definition well_formed :: "session_state \<Rightarrow> bool" where
  "well_formed ss =
     ((case ss ''messages'' of Some (ChatMessageHistory ms) \<Rightarrow> False | _ \<Rightarrow> True)
      \<and> (case ss ''default'' of Some (PyList ts) \<Rightarrow> False | _ \<Rightarrow> True))"

section \<open>Properties\<close>

subsection \<open>History store\<close>

lemma get_session_history_stored:
  "snd (get_session_history s ss) s = Some (fst (get_session_history s ss))"
  by (simp add: get_session_history_def split: option.splits)

lemma get_session_history_other:
  "k \<noteq> s \<Longrightarrow> snd (get_session_history s ss) k = ss k"
  by (simp add: get_session_history_def split: option.splits)

lemma add_message_other:
  "k \<noteq> s \<Longrightarrow> snd (add_message s m ss) k = ss k"
  by (simp add: add_message_def get_session_history_def split: option.splits stored.splits)

lemma add_messages_other:
  "k \<noteq> s \<Longrightarrow> snd (add_messages s ms ss) k = ss k"
proof (induction ms arbitrary: ss)
  case Nil
  then show ?case by simp
next
  case (Cons m ms)
  show ?case
  proof (cases "add_message s m ss")
    case (Pair r ss')
    have eq: "ss' k = ss k"
      using add_message_other [OF Cons.prems, of m ss] Pair by simp
    show ?thesis
    proof (cases r)
      case (Inl e)
      with Pair eq show ?thesis by simp
    next
      case (Inr u)
      with Pair eq Cons.IH [OF Cons.prems, of ss'] show ?thesis by simp
    qed
  qed
qed

lemma add_messages_history:
  "ss s = Some (ChatMessageHistory old) \<Longrightarrow>
   add_messages s ms ss = (Inr (), ss(s \<mapsto> ChatMessageHistory (old @ ms)))"
proof (induction ms arbitrary: ss old)
  case Nil
  then show ?case by (simp add: map_upd_triv)
next
  case (Cons m ms)
  have step: "add_message s m ss = (Inr (), ss(s \<mapsto> ChatMessageHistory (old @ [m])))"
    using Cons.prems by (simp add: add_message_def get_session_history_def)
  have "(ss(s \<mapsto> ChatMessageHistory (old @ [m]))) s = Some (ChatMessageHistory (old @ [m]))"
    by simp
  then have rest: "add_messages s ms (ss(s \<mapsto> ChatMessageHistory (old @ [m]))) =
      (Inr (), (ss(s \<mapsto> ChatMessageHistory (old @ [m])))
                 (s \<mapsto> ChatMessageHistory ((old @ [m]) @ ms)))"
    by (rule Cons.IH)
  have "add_messages s (m # ms) ss =
      add_messages s ms (ss(s \<mapsto> ChatMessageHistory (old @ [m])))"
    by (simp only: add_messages.simps step prod.case sum.case)
  also note rest
  finally show ?case
    by (simp only: fun_upd_upd append_assoc append.simps)
qed

lemma add_messages_fresh:
  "ss s = None \<Longrightarrow> ms \<noteq> [] \<Longrightarrow>
   add_messages s ms ss = (Inr (), ss(s \<mapsto> ChatMessageHistory ms))"
proof (cases ms)
  case Nil
  assume "ms \<noteq> []"
  with Nil show ?thesis by simp
next
  case (Cons m ms')
  assume none: "ss s = None"
  have step: "add_message s m ss = (Inr (), ss(s \<mapsto> ChatMessageHistory [m]))"
    using none by (simp add: add_message_def get_session_history_def)
  have "(ss(s \<mapsto> ChatMessageHistory [m])) s = Some (ChatMessageHistory [m])"
    by simp
  then have rest: "add_messages s ms' (ss(s \<mapsto> ChatMessageHistory [m])) =
      (Inr (), (ss(s \<mapsto> ChatMessageHistory [m]))(s \<mapsto> ChatMessageHistory ([m] @ ms')))"
    by (rule add_messages_history)
  have "add_messages s (m # ms') ss = add_messages s ms' (ss(s \<mapsto> ChatMessageHistory [m]))"
    by (simp only: add_messages.simps step prod.case sum.case)
  also note rest
  finally show ?thesis
    unfolding Cons by (simp only: fun_upd_upd append_assoc append.simps)
qed

text \<open>
  C1. \<open>get_session_history\<close> returns the object stored under the session id, and when
  the id is absent it stores a new empty history, returns it and leaves every other key
  as it was; in both cases the object returned is the one stored under the id afterwards.
  Appending under one id leaves what is stored and observed under every other id
  unchanged. Appending a list of messages under an absent id succeeds and the history
  observed under the id is then exactly that list, in the order of the calls (so its
  length is the number of appended messages); under an id that holds a history the old
  messages stay in front and the new ones follow.
\<close>

theorem session_history_isolated:
  "snd (get_session_history s ss) s = Some (fst (get_session_history s ss))
   \<and> (\<forall>h. ss s = Some h \<longrightarrow> get_session_history s ss = (h, ss))
   \<and> (ss s = None \<longrightarrow>
        fst (get_session_history s ss) = ChatMessageHistory []
        \<and> (\<forall>k. k \<noteq> s \<longrightarrow> snd (get_session_history s ss) k = ss k))
   \<and> (\<forall>s2. s2 \<noteq> s \<longrightarrow>
        snd (add_messages s ms ss) s2 = ss s2
        \<and> observed s2 (snd (add_messages s ms ss)) = observed s2 ss)
   \<and> (ss s = None \<longrightarrow>
        fst (add_messages s ms ss) = Inr ()
        \<and> observed s (snd (add_messages s ms ss)) = ChatMessageHistory ms)
   \<and> (\<forall>old. ss s = Some (ChatMessageHistory old) \<longrightarrow>
        fst (add_messages s ms ss) = Inr ()
        \<and> observed s (snd (add_messages s ms ss)) = ChatMessageHistory (old @ ms))"
proof (intro conjI allI impI)
  show "snd (get_session_history s ss) s = Some (fst (get_session_history s ss))"
    by (rule get_session_history_stored)
next
  fix h assume "ss s = Some h"
  then show "get_session_history s ss = (h, ss)"
    by (simp add: get_session_history_def)
next
  assume "ss s = None"
  then show "fst (get_session_history s ss) = ChatMessageHistory []"
    by (simp add: get_session_history_def)
next
  fix k assume "ss s = None" "k \<noteq> s"
  then show "snd (get_session_history s ss) k = ss k"
    by (simp add: get_session_history_other)
next
  fix s2 assume "s2 \<noteq> s"
  then show "snd (add_messages s ms ss) s2 = ss s2"
    by (rule add_messages_other)
next
  fix s2 assume "s2 \<noteq> s"
  then show "observed s2 (snd (add_messages s ms ss)) = observed s2 ss"
    by (simp add: observed_def get_session_history_def add_messages_other split: option.splits)
next
  assume "ss s = None"
  then show "fst (add_messages s ms ss) = Inr ()"
    by (cases "ms = []") (simp_all add: add_messages_fresh)
next
  assume "ss s = None"
  then show "observed s (snd (add_messages s ms ss)) = ChatMessageHistory ms"
    by (cases "ms = []") (simp_all add: add_messages_fresh observed_def get_session_history_def)
next
  fix old assume "ss s = Some (ChatMessageHistory old)"
  then show "fst (add_messages s ms ss) = Inr ()"
    by (simp add: add_messages_history)
next
  fix old assume "ss s = Some (ChatMessageHistory old)"
  then show "observed s (snd (add_messages s ms ss)) = ChatMessageHistory (old @ ms)"
    by (simp add: add_messages_history observed_def get_session_history_def)
qed


theorem session_history_isolated_witness:
  "observed ''s2'' (snd (add_messages ''s1'' [HumanMessage ''a'', AIMessage ''b''] Map.empty))
     = observed ''s2'' Map.empty
   \<and> fst (add_messages ''s1'' [HumanMessage ''a'', AIMessage ''b''] Map.empty) = Inr ()
   \<and> observed ''s1'' (snd (add_messages ''s1'' [HumanMessage ''a'', AIMessage ''b''] Map.empty))
     = ChatMessageHistory [HumanMessage ''a'', AIMessage ''b'']
   \<and> get_session_history ''s1'' [''s1'' \<mapsto> ChatMessageHistory [HumanMessage ''x'']]
     = (ChatMessageHistory [HumanMessage ''x''], [''s1'' \<mapsto> ChatMessageHistory [HumanMessage ''x'']])
   \<and> observed ''s1'' (snd (add_messages ''s1'' [AIMessage ''y'']
         [''s1'' \<mapsto> ChatMessageHistory [HumanMessage ''x'']]))
     = ChatMessageHistory [HumanMessage ''x'', AIMessage ''y'']"
proof -
  have fresh: "(Map.empty :: session_state) ''s1'' = None"
    by simp
  have other: "''s2'' \<noteq> ''s1''"
    by simp
  have held: "[''s1'' \<mapsto> ChatMessageHistory [HumanMessage ''x'']] ''s1''
      = Some (ChatMessageHistory [HumanMessage ''x''])"
    by simp
  note t1 = session_history_isolated
    [of "''s1''" Map.empty "[HumanMessage ''a'', AIMessage ''b'']"]
  note t2 = session_history_isolated
    [of "''s1''" "[''s1'' \<mapsto> ChatMessageHistory [HumanMessage ''x'']]" "[AIMessage ''y'']"]
  have iso: "\<forall>s2. s2 \<noteq> ''s1'' \<longrightarrow>
        snd (add_messages ''s1'' [HumanMessage ''a'', AIMessage ''b''] Map.empty) s2 = Map.empty s2
        \<and> observed s2 (snd (add_messages ''s1'' [HumanMessage ''a'', AIMessage ''b''] Map.empty))
          = observed s2 Map.empty"
    by (rule t1 [THEN conjunct2, THEN conjunct2, THEN conjunct2, THEN conjunct1])
  have a1: "observed ''s2'' (snd (add_messages ''s1'' [HumanMessage ''a'', AIMessage ''b''] Map.empty))
        = observed ''s2'' Map.empty"
    using iso [THEN spec, of "''s2''", THEN mp, OF other] by (rule conjunct2)
  have new: "fst (add_messages ''s1'' [HumanMessage ''a'', AIMessage ''b''] Map.empty) = Inr ()
      \<and> observed ''s1'' (snd (add_messages ''s1'' [HumanMessage ''a'', AIMessage ''b''] Map.empty))
        = ChatMessageHistory [HumanMessage ''a'', AIMessage ''b'']"
    by (rule t1 [THEN conjunct2, THEN conjunct2, THEN conjunct2, THEN conjunct2,
          THEN conjunct1, THEN mp, OF fresh])
  have got: "get_session_history ''s1'' [''s1'' \<mapsto> ChatMessageHistory [HumanMessage ''x'']]
        = (ChatMessageHistory [HumanMessage ''x''], [''s1'' \<mapsto> ChatMessageHistory [HumanMessage ''x'']])"
    by (rule t2 [THEN conjunct2, THEN conjunct1, THEN spec, THEN mp, OF held])
  have app: "fst (add_messages ''s1'' [AIMessage ''y''] [''s1'' \<mapsto> ChatMessageHistory [HumanMessage ''x'']])
        = Inr ()
      \<and> observed ''s1'' (snd (add_messages ''s1'' [AIMessage ''y'']
            [''s1'' \<mapsto> ChatMessageHistory [HumanMessage ''x'']]))
        = ChatMessageHistory ([HumanMessage ''x''] @ [AIMessage ''y''])"
    by (rule t2 [THEN conjunct2, THEN conjunct2, THEN conjunct2, THEN conjunct2,
          THEN conjunct2, THEN spec, THEN mp, OF held])
  from app have app': "observed ''s1'' (snd (add_messages ''s1'' [AIMessage ''y'']
            [''s1'' \<mapsto> ChatMessageHistory [HumanMessage ''x'']]))
        = ChatMessageHistory [HumanMessage ''x'', AIMessage ''y'']"
    by (simp only: append.simps conj_commute)
  from a1 new got app' show ?thesis
    by (intro conjI) (rule a1, rule new [THEN conjunct1], rule new [THEN conjunct2], rule got, rule app')
qed

subsection \<open>Prompt and model call\<close>

lemma format_template:
  "format_pieces repr
     ([''career_data'' \<mapsto> Str cd, ''major'' \<mapsto> Str major, ''user_input'' \<mapsto> Str user_input]
        (''chat_history'' \<mapsto> Messages hist)) template
   = Inr (instruction_head @ cd
        @ ''\<newline>\<newline>Conversation history:\<newline>'' @ repr hist
        @ ''\<newline>\<newline>User input: Major: '' @ major
        @ ''\<newline>Input: '' @ user_input @ instruction_tail)"
  by (simp add: template_def)

lemma format_human_template:
  "format_pieces repr
     ([''career_data'' \<mapsto> Str cd, ''major'' \<mapsto> Str major, ''user_input'' \<mapsto> Str user_input]
        (''chat_history'' \<mapsto> Messages hist)) human_template
   = Inr (''Major: '' @ major @ ''\<newline>Input: '' @ user_input)"
  by (simp add: human_template_def)

lemma format_get_prompt_template:
  "format_messages repr
     ([''career_data'' \<mapsto> Str (json_dumps career_data), ''major'' \<mapsto> Str major,
       ''user_input'' \<mapsto> Str user_input](''chat_history'' \<mapsto> Messages hist))
     get_prompt_template
   = Inr (expected_prompt repr career_data major user_input hist)"
  by (simp add: get_prompt_template_def expected_prompt_def format_template
      format_human_template)


lemma runnable_with_history_list:
  "session_state w sid = Some (PyList ts) \<Longrightarrow>
   runnable_with_history repr llm vars sid w = (Inl (Exception ''AttributeError''), w)"
  by (simp add: runnable_with_history_def RunnableWithMessageHistory_def get_session_history_def)

lemma runnable_with_history_held:
  assumes "session_state w sid = Some (ChatMessageHistory hist)"
  shows "runnable_with_history repr llm
           [''career_data'' \<mapsto> Str (json_dumps cd), ''major'' \<mapsto> Str major,
            ''user_input'' \<mapsto> Str user_input] sid w =
         (case llm (expected_prompt repr cd major user_input hist) of
            Inl e \<Rightarrow>
              (Inl e, w\<lparr>calls := calls w @ [expected_prompt repr cd major user_input hist]\<rparr>)
          | Inr reply \<Rightarrow>
              (Inr (AIMessage reply),
               w\<lparr>session_state := (session_state w)
                     (sid \<mapsto> ChatMessageHistory (hist @ [HumanMessage user_input, AIMessage reply])),
                  calls := calls w @ [expected_prompt repr cd major user_input hist]\<rparr>))"
proof (cases "llm (expected_prompt repr cd major user_input hist)")
  case (Inl e)
  with assms show ?thesis
    by (simp add: runnable_with_history_def RunnableWithMessageHistory_def
        get_session_history_def pipe_def format_get_prompt_template)
next
  case (Inr reply)
  have "add_messages sid [HumanMessage user_input, AIMessage reply] (session_state w) =
        (Inr (), (session_state w)
                   (sid \<mapsto> ChatMessageHistory (hist @ [HumanMessage user_input, AIMessage reply])))"
    using assms by (rule add_messages_history)
  with Inr assms show ?thesis
    by (simp add: runnable_with_history_def RunnableWithMessageHistory_def
        get_session_history_def pipe_def format_get_prompt_template input_messages_def
        del: add_messages.simps)
qed

lemma runnable_with_history_absent:
  assumes "session_state w sid = None"
  shows "runnable_with_history repr llm
           [''career_data'' \<mapsto> Str (json_dumps cd), ''major'' \<mapsto> Str major,
            ''user_input'' \<mapsto> Str user_input] sid w =
         (case llm (expected_prompt repr cd major user_input []) of
            Inl e \<Rightarrow>
              (Inl e, w\<lparr>session_state := (session_state w)(sid \<mapsto> ChatMessageHistory []),
                         calls := calls w @ [expected_prompt repr cd major user_input []]\<rparr>)
          | Inr reply \<Rightarrow>
              (Inr (AIMessage reply),
               w\<lparr>session_state := (session_state w)
                     (sid \<mapsto> ChatMessageHistory [HumanMessage user_input, AIMessage reply]),
                  calls := calls w @ [expected_prompt repr cd major user_input []]\<rparr>))"
proof (cases "llm (expected_prompt repr cd major user_input [])")
  case (Inl e)
  with assms show ?thesis
    by (simp add: runnable_with_history_def RunnableWithMessageHistory_def
        get_session_history_def pipe_def format_get_prompt_template)
next
  case (Inr reply)
  have "add_messages sid [HumanMessage user_input, AIMessage reply]
          ((session_state w)(sid \<mapsto> ChatMessageHistory [])) =
        (Inr (), ((session_state w)(sid \<mapsto> ChatMessageHistory []))
                   (sid \<mapsto> ChatMessageHistory ([] @ [HumanMessage user_input, AIMessage reply])))"
    by (rule add_messages_history) simp
  with Inr assms show ?thesis
    by (simp add: runnable_with_history_def RunnableWithMessageHistory_def
        get_session_history_def pipe_def format_get_prompt_template input_messages_def
        del: add_messages.simps)
qed


lemma chatbot_response_wrapped:
  assumes "case session_state w sid of Some (PyList ts) \<Rightarrow> False | _ \<Rightarrow> True"
  shows "chatbot_response user_input major (runnable_with_history repr llm) cd (Some sid) w =
     (case llm (expected_prompt repr cd major user_input (history sid (session_state w))) of
        Inl e \<Rightarrow>
          (Inl e,
           w\<lparr>session_state := snd (get_session_history sid (session_state w)),
              calls := calls w
                @ [expected_prompt repr cd major user_input (history sid (session_state w))]\<rparr>)
      | Inr reply \<Rightarrow>
          (Inr reply,
           w\<lparr>session_state := (session_state w)
                 (sid \<mapsto> ChatMessageHistory
                    (history sid (session_state w) @ [HumanMessage user_input, AIMessage reply])),
              calls := calls w
                @ [expected_prompt repr cd major user_input (history sid (session_state w))]\<rparr>))"
proof (cases "session_state w sid")
  case None
  then show ?thesis
    by (simp add: chatbot_response_def runnable_with_history_absent history_def
        get_session_history_def split: sum.splits)
next
  case (Some h)
  show ?thesis
  proof (cases h)
    case (PyList ts)
    with Some assms show ?thesis by simp
  next
    case (ChatMessageHistory hist)
    with Some show ?thesis
      by (simp add: chatbot_response_def runnable_with_history_held history_def
          get_session_history_def split: sum.splits)
  qed
qed

lemma chatbot_response_list:
  "session_state w sid = Some (PyList ts) \<Longrightarrow>
   chatbot_response user_input major (runnable_with_history repr llm) cd (Some sid) w =
     (Inl (Exception ''AttributeError''), w)"
  by (simp add: chatbot_response_def runnable_with_history_list)

lemma chatbot_response_default:
  "chatbot_response user_input major runnable cd None w =
   chatbot_response user_input major runnable cd (Some ''default'') w"
  by (simp add: chatbot_response_def)

lemma sublist_join: "x \<in> set xs \<Longrightarrow> sublist x (join sep xs)"
proof (induction sep xs rule: join.induct)
  case (1 sep)
  then show ?case by simp
next
  case (2 sep y)
  then show ?case by simp
next
  case (3 sep y z zs)
  show ?case
  proof (cases "x = y")
    case True
    then show ?thesis by simp
  next
    case False
    with 3 have "sublist x (join sep (z # zs))" by simp
    then obtain ps ss where "join sep (z # zs) = ps @ x @ ss"
      by (auto simp: sublist_def)
    then have "join sep (y # z # zs) = (y @ sep @ ps) @ x @ ss" by simp
    then show ?thesis unfolding sublist_def by blast
  qed
qed

lemma sublist_json_items: "x \<in> set xs \<Longrightarrow> sublist x (json_items level xs)"
proof -
  assume "x \<in> set xs"
  then have "sublist x (join ('','' @ newline_indent (Suc level)) xs)"
    by (rule sublist_join)
  then obtain ps ss where "join ('','' @ newline_indent (Suc level)) xs = ps @ x @ ss"
    by (auto simp: sublist_def)
  then have "json_items level xs = (newline_indent (Suc level) @ ps) @ x @ (ss @ newline_indent level)"
    by (simp add: json_items_def)
  then show ?thesis unfolding sublist_def by blast
qed


lemma sublist_json_field:
  assumes "(k, xs) \<in> set e"
  shows "sublist (json_str k @ '': '' @ json_list (Suc level) xs) (json_entry level e)"
proof -
  let ?f = "\<lambda>(k, xs). json_str k @ '': '' @ json_list (Suc level) xs"
  from assms have ne: "e \<noteq> []" by auto
  from assms have "?f (k, xs) \<in> set (map ?f e)" by (simp only: set_map) (rule imageI)
  then have "sublist (?f (k, xs)) (json_items level (map ?f e))"
    by (rule sublist_json_items)
  then obtain ps ss where "json_items level (map ?f e) = ps @ ?f (k, xs) @ ss"
    unfolding sublist_def by blast
  with ne have "json_entry level e
      = (''{'' @ ps) @ (json_str k @ '': '' @ json_list (Suc level) xs) @ (ss @ ''}'')"
    by (simp add: json_entry_def)
  then show ?thesis unfolding sublist_def by blast
qed

lemma sublist_json_table:
  assumes "(M, e) \<in> set t" and "(k, xs) \<in> set e"
  shows "sublist (json_str k @ '': '' @ json_list 2 xs) (json_dumps t)"
proof -
  let ?f = "\<lambda>(k, e). json_str k @ '': '' @ json_entry 1 e"
  from assms(1) have ne: "t \<noteq> []" by auto
  from assms(1) have "?f (M, e) \<in> set (map ?f t)" by (simp only: set_map) (rule imageI)
  then have "sublist (?f (M, e)) (json_items 0 (map ?f t))"
    by (rule sublist_json_items)
  moreover have "sublist (json_entry 1 e) (?f (M, e))"
  proof -
    have "?f (M, e) = (json_str M @ '': '') @ json_entry 1 e" by simp
    then show ?thesis by (simp only: sublist_append_leftI)
  qed
  moreover have "sublist (json_str k @ '': '' @ json_list (Suc 1) xs) (json_entry 1 e)"
    using assms(2) by (rule sublist_json_field)
  ultimately have "sublist (json_str k @ '': '' @ json_list (Suc 1) xs) (json_items 0 (map ?f t))"
    by (meson sublist_order.order.trans)
  moreover have "Suc 1 = (2::nat)" by simp
  ultimately have "sublist (json_str k @ '': '' @ json_list 2 xs) (json_items 0 (map ?f t))"
    by (simp only:)
  then obtain ps ss where
    "json_items 0 (map ?f t) = ps @ (json_str k @ '': '' @ json_list 2 xs) @ ss"
    unfolding sublist_def by blast
  with ne have "json_dumps t
      = (''{'' @ ps) @ (json_str k @ '': '' @ json_list 2 xs) @ (ss @ ''}'')"
    by (simp add: json_dumps_def)
  then show ?thesis unfolding sublist_def by blast
qed

lemma json_careers_computer_science:
  "json_str ''careers'' @ '': ''
     @ json_list 2 [''Software Engineer'', ''Data Scientist'', ''Cybersecurity Analyst'']
   = ''\"careers\": [\<newline>''
     @ ''      \"Software Engineer\",\<newline>''
     @ ''      \"Data Scientist\",\<newline>''
     @ ''      \"Cybersecurity Analyst\"\<newline>''
     @ ''    ]''"
  by (simp add: json_list_def json_items_def json_str_def escape_char_def newline_indent_def
      eval_nat_numeral)

lemma json_skills_computer_science:
  "json_str ''skills'' @ '': ''
     @ json_list 2 [''Python'', ''Java'', ''Data Analysis'', ''Cybersecurity'']
   = ''\"skills\": [\<newline>''
     @ ''      \"Python\",\<newline>''
     @ ''      \"Java\",\<newline>''
     @ ''      \"Data Analysis\",\<newline>''
     @ ''      \"Cybersecurity\"\<newline>''
     @ ''    ]''"
  by (simp add: json_list_def json_items_def json_str_def escape_char_def newline_indent_def
      eval_nat_numeral)

lemma json_dumps_load_career_data:
  "json_dumps load_career_data =
     ''{\<newline>''
     @ ''  \"Computer Science\": {\<newline>''
     @ ''    \"careers\": [\<newline>''
     @ ''      \"Software Engineer\",\<newline>''
     @ ''      \"Data Scientist\",\<newline>''
     @ ''      \"Cybersecurity Analyst\"\<newline>''
     @ ''    ],\<newline>''
     @ ''    \"skills\": [\<newline>''
     @ ''      \"Python\",\<newline>''
     @ ''      \"Java\",\<newline>''
     @ ''      \"Data Analysis\",\<newline>''
     @ ''      \"Cybersecurity\"\<newline>''
     @ ''    ],\<newline>''
     @ ''    \"resources\": [\<newline>''
     @ ''      \"Coursera\",\<newline>''
     @ ''      \"LeetCode\",\<newline>''
     @ ''      \"TryHackMe\"\<newline>''
     @ ''    ]\<newline>''
     @ ''  },\<newline>''
     @ ''  \"Business\": {\<newline>''
     @ ''    \"careers\": [\<newline>''
     @ ''      \"Marketing Manager\",\<newline>''
     @ ''      \"Financial Analyst\",\<newline>''
     @ ''      \"Entrepreneur\"\<newline>''
     @ ''    ],\<newline>''
     @ ''    \"skills\": [\<newline>''
     @ ''      \"Marketing\",\<newline>''
     @ ''      \"Finance\",\<newline>''
     @ ''      \"Leadership\"\<newline>''
     @ ''    ],\<newline>''
     @ ''    \"resources\": [\<newline>''
     @ ''      \"LinkedIn Learning\",\<newline>''
     @ ''      \"Coursera\",\<newline>''
     @ ''      \"Harvard Business Review\"\<newline>''
     @ ''    ]\<newline>''
     @ ''  },\<newline>''
     @ ''  \"Biology\": {\<newline>''
     @ ''    \"careers\": [\<newline>''
     @ ''      \"Biomedical Researcher\",\<newline>''
     @ ''      \"Environmental Scientist\",\<newline>''
     @ ''      \"Pharmacist\"\<newline>''
     @ ''    ],\<newline>''
     @ ''    \"skills\": [\<newline>''
     @ ''      \"Research\",\<newline>''
     @ ''      \"Lab Techniques\",\<newline>''
     @ ''      \"Data Analysis\"\<newline>''
     @ ''    ],\<newline>''
     @ ''    \"resources\": [\<newline>''
     @ ''      \"PubMed\",\<newline>''
     @ ''      \"Khan Academy\",\<newline>''
     @ ''      \"Nature Journal\"\<newline>''
     @ ''    ]\<newline>''
     @ ''  }\<newline>''
     @ ''}''"
  by (simp add: json_dumps_def json_entry_def json_list_def json_items_def json_str_def
      escape_char_def newline_indent_def load_career_data_def eval_nat_numeral)

lemma sublist_system_message:
  assumes "sublist x (json_dumps cd)"
  shows "sublist x (content_of (hd (expected_prompt repr cd major user_input hist)))"
proof -
  from assms obtain ps ss where "json_dumps cd = ps @ x @ ss"
    by (auto simp: sublist_def)
  then have "content_of (hd (expected_prompt repr cd major user_input hist)) =
      (instruction_head @ ps) @ x @ (ss @ ''\<newline>\<newline>Conversation history:\<newline>'' @ repr hist
        @ ''\<newline>\<newline>User input: Major: '' @ major
        @ ''\<newline>Input: '' @ user_input @ instruction_tail)"
    by (simp add: expected_prompt_def)
  then show ?thesis unfolding sublist_def by blast
qed


text \<open>
  C7. For every major (in the knowledge table or not) and every question, empty strings
  included, formatting the prompt template with the input of \<open>chatbot_response\<close> and any
  history succeeds. The prompt is the system message, then the history, then the human
  message made of the unchanged major and question. The system message is the instruction
  text of the template, word for word, around the serialised table, the printed history
  and the unchanged major and question; in particular it holds the sentence that tells
  the model what to do with a major that is not in the knowledge table. With the history
  wrapper, \<open>chatbot_response\<close> sends exactly this prompt to the model and raises only if
  the model does.
\<close>

theorem prompt_assembled_for_any_input:
  "format_messages repr
     ([''career_data'' \<mapsto> Str (json_dumps career_data), ''major'' \<mapsto> Str major,
       ''user_input'' \<mapsto> Str user_input](''chat_history'' \<mapsto> Messages hist))
     get_prompt_template
   = Inr (expected_prompt repr career_data major user_input hist)
   \<and> expected_prompt repr career_data major user_input hist
     = SystemMessage
         (''\<newline>You are a career guidance chatbot designed for undergraduates. ''
           @ ''Your goal is to provide personalized, concise, and actionable career advice ''
           @ ''based on the user's academic major, interests, and skills. ''
           @ ''Use the following knowledge base for reference:\<newline>\<newline>''
           @ json_dumps career_data
           @ ''\<newline>\<newline>Conversation history:\<newline>'' @ repr hist
           @ ''\<newline>\<newline>User input: Major: '' @ major
           @ ''\<newline>Input: '' @ user_input
           @ ''\<newline>\<newline>Analyze the user's major and input to suggest relevant career paths, ''
           @ ''skills to develop, and learning resources. ''
           @ ''If the major is not in the knowledge base, reason about related fields ''
           @ ''and provide plausible suggestions. ''
           @ ''Keep responses friendly, professional, and under 200 words.\<newline>'')
       # hist @ [HumanMessage (''Major: '' @ major @ ''\<newline>Input: '' @ user_input)]
   \<and> sublist
         (''If the major is not in the knowledge base, reason about related fields ''
           @ ''and provide plausible suggestions.'')
         (content_of (hd (expected_prompt repr career_data major user_input hist)))
   \<and> ((case session_state w sid of Some (PyList ts) \<Rightarrow> False | _ \<Rightarrow> True) \<longrightarrow>
        calls (snd (chatbot_response user_input major (runnable_with_history repr llm)
                      career_data (Some sid) w))
          = calls w
            @ [expected_prompt repr career_data major user_input (history sid (session_state w))]
        \<and> (\<forall>reply.
              llm (expected_prompt repr career_data major user_input
                     (history sid (session_state w))) = Inr reply \<longrightarrow>
              fst (chatbot_response user_input major (runnable_with_history repr llm)
                     career_data (Some sid) w) = Inr reply))"
proof (intro conjI impI allI)
  show "format_messages repr
     ([''career_data'' \<mapsto> Str (json_dumps career_data), ''major'' \<mapsto> Str major,
       ''user_input'' \<mapsto> Str user_input](''chat_history'' \<mapsto> Messages hist))
     get_prompt_template
   = Inr (expected_prompt repr career_data major user_input hist)"
    by (rule format_get_prompt_template)
next
  show "expected_prompt repr career_data major user_input hist
     = SystemMessage
         (''\<newline>You are a career guidance chatbot designed for undergraduates. ''
           @ ''Your goal is to provide personalized, concise, and actionable career advice ''
           @ ''based on the user's academic major, interests, and skills. ''
           @ ''Use the following knowledge base for reference:\<newline>\<newline>''
           @ json_dumps career_data
           @ ''\<newline>\<newline>Conversation history:\<newline>'' @ repr hist
           @ ''\<newline>\<newline>User input: Major: '' @ major
           @ ''\<newline>Input: '' @ user_input
           @ ''\<newline>\<newline>Analyze the user's major and input to suggest relevant career paths, ''
           @ ''skills to develop, and learning resources. ''
           @ ''If the major is not in the knowledge base, reason about related fields ''
           @ ''and provide plausible suggestions. ''
           @ ''Keep responses friendly, professional, and under 200 words.\<newline>'')
       # hist @ [HumanMessage (''Major: '' @ major @ ''\<newline>Input: '' @ user_input)]"
    by (simp add: expected_prompt_def instruction_head_def instruction_tail_def)
next
  have "instruction_tail
      = ''\<newline>\<newline>Analyze the user's major and input to suggest relevant career paths, skills to develop, and learning resources. ''
        @ (''If the major is not in the knowledge base, reason about related fields ''
           @ ''and provide plausible suggestions.'')
        @ '' Keep responses friendly, professional, and under 200 words.\<newline>''"
    by (simp add: instruction_tail_def)
  then have "content_of (hd (expected_prompt repr career_data major user_input hist))
      = (instruction_head @ json_dumps career_data
          @ ''\<newline>\<newline>Conversation history:\<newline>'' @ repr hist
          @ ''\<newline>\<newline>User input: Major: '' @ major
          @ ''\<newline>Input: '' @ user_input
          @ ''\<newline>\<newline>Analyze the user's major and input to suggest relevant career paths, skills to develop, and learning resources. '')
        @ (''If the major is not in the knowledge base, reason about related fields ''
           @ ''and provide plausible suggestions.'')
        @ '' Keep responses friendly, professional, and under 200 words.\<newline>''"
    by (simp add: expected_prompt_def)
  then show "sublist
         (''If the major is not in the knowledge base, reason about related fields ''
           @ ''and provide plausible suggestions.'')
         (content_of (hd (expected_prompt repr career_data major user_input hist)))"
    unfolding sublist_def by blast
next
  assume ok: "case session_state w sid of Some (PyList ts) \<Rightarrow> False | _ \<Rightarrow> True"
  show "calls (snd (chatbot_response user_input major (runnable_with_history repr llm)
                      career_data (Some sid) w))
          = calls w
            @ [expected_prompt repr career_data major user_input (history sid (session_state w))]"
    by (simp add: chatbot_response_wrapped [OF ok] split: sum.splits)
next
  fix reply
  assume ok: "case session_state w sid of Some (PyList ts) \<Rightarrow> False | _ \<Rightarrow> True"
    and "llm (expected_prompt repr career_data major user_input
                     (history sid (session_state w))) = Inr reply"
  then show "fst (chatbot_response user_input major (runnable_with_history repr llm)
                     career_data (Some sid) w) = Inr reply"
    by (simp add: chatbot_response_wrapped [OF ok])
qed

theorem prompt_assembled_for_any_input_witness:
  "calls (snd (chatbot_response [] ''Astrology''
       (runnable_with_history (\<lambda>ms. []) (\<lambda>p. Inr ''ok'')) load_career_data (Some ''default'')
       \<lparr>files = Map.empty, environ = Map.empty, session_state = Map.empty, ui = [],
        calls = []\<rparr>))
   = [expected_prompt (\<lambda>ms. []) load_career_data ''Astrology'' [] []]
   \<and> fst (chatbot_response [] ''Astrology''
       (runnable_with_history (\<lambda>ms. []) (\<lambda>p. Inr ''ok'')) load_career_data (Some ''default'')
       \<lparr>files = Map.empty, environ = Map.empty, session_state = Map.empty, ui = [],
        calls = []\<rparr>) = Inr ''ok''"
proof -
  let ?w = "\<lparr>files = Map.empty, environ = Map.empty, session_state = Map.empty, ui = [],
        calls = []\<rparr> :: world"
  have ok: "case session_state ?w ''default'' of Some (PyList ts) \<Rightarrow> False | _ \<Rightarrow> True"
    by simp
  have h: "history ''default'' (session_state ?w) = []"
    by (simp add: history_def)
  note t = prompt_assembled_for_any_input
    [of "\<lambda>ms. []" load_career_data "''Astrology''" "[]" "[]" ?w "''default''" "\<lambda>p. Inr ''ok''",
      THEN conjunct2, THEN conjunct2, THEN conjunct2, THEN mp, OF ok]
  from t [THEN conjunct1] h
  have a: "calls (snd (chatbot_response [] ''Astrology''
       (runnable_with_history (\<lambda>ms. []) (\<lambda>p. Inr ''ok'')) load_career_data (Some ''default'') ?w))
     = [expected_prompt (\<lambda>ms. []) load_career_data ''Astrology'' [] []]"
    by simp
  from t [THEN conjunct2, THEN spec, of "''ok''"]
  have b: "fst (chatbot_response [] ''Astrology''
       (runnable_with_history (\<lambda>ms. []) (\<lambda>p. Inr ''ok'')) load_career_data (Some ''default'') ?w)
     = Inr ''ok''"
    by simp
  from a b show ?thesis by (rule conjI)
qed


text \<open>
  C4. With major \<open>Computer Science\<close>, the question \<open>What skills should I learn?\<close>, a
  session id \<open>s1\<close> that has no history yet and a model that replies
  \<open>Learn Python and data analysis.\<close>: \<open>chatbot_response\<close> returns the reply, the
  model is called once with the assembled prompt, and (by the history wrapper of the
  library) the history under \<open>s1\<close> becomes exactly the question as a human message
  followed by the reply as an assistant message. The assembled prompt is given in full:
  its system message is the instruction text around the serialised knowledge table, as
  \<open>json.dumps\<close> writes it with an indent of two. In it stand the careers list and the
  skills list of the major, each under its key, with each item quoted on a line of its
  own.
\<close>

theorem end_to_end_computer_science:
  assumes "session_state w ''s1'' = None"
  shows "chatbot_response ''What skills should I learn?'' ''Computer Science''
           (runnable_with_history repr (\<lambda>p. Inr ''Learn Python and data analysis.''))
           load_career_data (Some ''s1'') w
         = (Inr ''Learn Python and data analysis.'',
            w\<lparr>session_state := (session_state w)
                  (''s1'' \<mapsto> ChatMessageHistory
                     [HumanMessage ''What skills should I learn?'',
                      AIMessage ''Learn Python and data analysis.'']),
               calls := calls w
                 @ [expected_prompt repr load_career_data ''Computer Science''
                      ''What skills should I learn?'' []]\<rparr>)
         \<and> expected_prompt repr load_career_data ''Computer Science''
             ''What skills should I learn?'' []
           = [SystemMessage
               (''\<newline>You are a career guidance chatbot designed for undergraduates. ''
           @ ''Your goal is to provide personalized, concise, and actionable career advice ''
           @ ''based on the user's academic major, interests, and skills. ''
           @ ''Use the following knowledge base for reference:\<newline>\<newline>''
           @ ''{\<newline>''
           @ ''  \"Computer Science\": {\<newline>''
           @ ''    \"careers\": [\<newline>''
           @ ''      \"Software Engineer\",\<newline>''
           @ ''      \"Data Scientist\",\<newline>''
           @ ''      \"Cybersecurity Analyst\"\<newline>''
           @ ''    ],\<newline>''
           @ ''    \"skills\": [\<newline>''
           @ ''      \"Python\",\<newline>''
           @ ''      \"Java\",\<newline>''
           @ ''      \"Data Analysis\",\<newline>''
           @ ''      \"Cybersecurity\"\<newline>''
           @ ''    ],\<newline>''
           @ ''    \"resources\": [\<newline>''
           @ ''      \"Coursera\",\<newline>''
           @ ''      \"LeetCode\",\<newline>''
           @ ''      \"TryHackMe\"\<newline>''
           @ ''    ]\<newline>''
           @ ''  },\<newline>''
           @ ''  \"Business\": {\<newline>''
           @ ''    \"careers\": [\<newline>''
           @ ''      \"Marketing Manager\",\<newline>''
           @ ''      \"Financial Analyst\",\<newline>''
           @ ''      \"Entrepreneur\"\<newline>''
           @ ''    ],\<newline>''
           @ ''    \"skills\": [\<newline>''
           @ ''      \"Marketing\",\<newline>''
           @ ''      \"Finance\",\<newline>''
           @ ''      \"Leadership\"\<newline>''
           @ ''    ],\<newline>''
           @ ''    \"resources\": [\<newline>''
           @ ''      \"LinkedIn Learning\",\<newline>''
           @ ''      \"Coursera\",\<newline>''
           @ ''      \"Harvard Business Review\"\<newline>''
           @ ''    ]\<newline>''
           @ ''  },\<newline>''
           @ ''  \"Biology\": {\<newline>''
           @ ''    \"careers\": [\<newline>''
           @ ''      \"Biomedical Researcher\",\<newline>''
           @ ''      \"Environmental Scientist\",\<newline>''
           @ ''      \"Pharmacist\"\<newline>''
           @ ''    ],\<newline>''
           @ ''    \"skills\": [\<newline>''
           @ ''      \"Research\",\<newline>''
           @ ''      \"Lab Techniques\",\<newline>''
           @ ''      \"Data Analysis\"\<newline>''
           @ ''    ],\<newline>''
           @ ''    \"resources\": [\<newline>''
           @ ''      \"PubMed\",\<newline>''
           @ ''      \"Khan Academy\",\<newline>''
           @ ''      \"Nature Journal\"\<newline>''
           @ ''    ]\<newline>''
           @ ''  }\<newline>''
           @ ''}''
           @ ''\<newline>\<newline>Conversation history:\<newline>'' @ repr []
           @ ''\<newline>\<newline>User input: Major: Computer Science''
           @ ''\<newline>Input: What skills should I learn?''
           @ ''\<newline>\<newline>Analyze the user's major and input to suggest relevant career paths, ''
           @ ''skills to develop, and learning resources. ''
           @ ''If the major is not in the knowledge base, reason about related fields ''
           @ ''and provide plausible suggestions. ''
           @ ''Keep responses friendly, professional, and under 200 words.\<newline>''),
              HumanMessage ''Major: Computer Science\<newline>Input: What skills should I learn?'']
         \<and> sublist (''\"careers\": [\<newline>''
               @ ''      \"Software Engineer\",\<newline>''
               @ ''      \"Data Scientist\",\<newline>''
               @ ''      \"Cybersecurity Analyst\"\<newline>''
               @ ''    ]'')
             (content_of (hd (expected_prompt repr load_career_data ''Computer Science''
                ''What skills should I learn?'' [])))
         \<and> sublist (''\"skills\": [\<newline>''
               @ ''      \"Python\",\<newline>''
               @ ''      \"Java\",\<newline>''
               @ ''      \"Data Analysis\",\<newline>''
               @ ''      \"Cybersecurity\"\<newline>''
               @ ''    ]'')
             (content_of (hd (expected_prompt repr load_career_data ''Computer Science''
                ''What skills should I learn?'' [])))"
proof (intro conjI)
  have ok: "case session_state w ''s1'' of Some (PyList ts) \<Rightarrow> False | _ \<Rightarrow> True"
    using assms by simp
  have h: "history ''s1'' (session_state w) = []"
    using assms by (simp add: history_def)
  show "chatbot_response ''What skills should I learn?'' ''Computer Science''
           (runnable_with_history repr (\<lambda>p. Inr ''Learn Python and data analysis.''))
           load_career_data (Some ''s1'') w
         = (Inr ''Learn Python and data analysis.'',
            w\<lparr>session_state := (session_state w)
                  (''s1'' \<mapsto> ChatMessageHistory
                     [HumanMessage ''What skills should I learn?'',
                      AIMessage ''Learn Python and data analysis.'']),
               calls := calls w
                 @ [expected_prompt repr load_career_data ''Computer Science''
                      ''What skills should I learn?'' []]\<rparr>)"
    by (simp only: chatbot_response_wrapped [OF ok] h sum.case append_Nil)
next
  show "expected_prompt repr load_career_data ''Computer Science''
             ''What skills should I learn?'' []
           = [SystemMessage
               (''\<newline>You are a career guidance chatbot designed for undergraduates. ''
           @ ''Your goal is to provide personalized, concise, and actionable career advice ''
           @ ''based on the user's academic major, interests, and skills. ''
           @ ''Use the following knowledge base for reference:\<newline>\<newline>''
           @ ''{\<newline>''
           @ ''  \"Computer Science\": {\<newline>''
           @ ''    \"careers\": [\<newline>''
           @ ''      \"Software Engineer\",\<newline>''
           @ ''      \"Data Scientist\",\<newline>''
           @ ''      \"Cybersecurity Analyst\"\<newline>''
           @ ''    ],\<newline>''
           @ ''    \"skills\": [\<newline>''
           @ ''      \"Python\",\<newline>''
           @ ''      \"Java\",\<newline>''
           @ ''      \"Data Analysis\",\<newline>''
           @ ''      \"Cybersecurity\"\<newline>''
           @ ''    ],\<newline>''
           @ ''    \"resources\": [\<newline>''
           @ ''      \"Coursera\",\<newline>''
           @ ''      \"LeetCode\",\<newline>''
           @ ''      \"TryHackMe\"\<newline>''
           @ ''    ]\<newline>''
           @ ''  },\<newline>''
           @ ''  \"Business\": {\<newline>''
           @ ''    \"careers\": [\<newline>''
           @ ''      \"Marketing Manager\",\<newline>''
           @ ''      \"Financial Analyst\",\<newline>''
           @ ''      \"Entrepreneur\"\<newline>''
           @ ''    ],\<newline>''
           @ ''    \"skills\": [\<newline>''
           @ ''      \"Marketing\",\<newline>''
           @ ''      \"Finance\",\<newline>''
           @ ''      \"Leadership\"\<newline>''
           @ ''    ],\<newline>''
           @ ''    \"resources\": [\<newline>''
           @ ''      \"LinkedIn Learning\",\<newline>''
           @ ''      \"Coursera\",\<newline>''
           @ ''      \"Harvard Business Review\"\<newline>''
           @ ''    ]\<newline>''
           @ ''  },\<newline>''
           @ ''  \"Biology\": {\<newline>''
           @ ''    \"careers\": [\<newline>''
           @ ''      \"Biomedical Researcher\",\<newline>''
           @ ''      \"Environmental Scientist\",\<newline>''
           @ ''      \"Pharmacist\"\<newline>''
           @ ''    ],\<newline>''
           @ ''    \"skills\": [\<newline>''
           @ ''      \"Research\",\<newline>''
           @ ''      \"Lab Techniques\",\<newline>''
           @ ''      \"Data Analysis\"\<newline>''
           @ ''    ],\<newline>''
           @ ''    \"resources\": [\<newline>''
           @ ''      \"PubMed\",\<newline>''
           @ ''      \"Khan Academy\",\<newline>''
           @ ''      \"Nature Journal\"\<newline>''
           @ ''    ]\<newline>''
           @ ''  }\<newline>''
           @ ''}''
           @ ''\<newline>\<newline>Conversation history:\<newline>'' @ repr []
           @ ''\<newline>\<newline>User input: Major: Computer Science''
           @ ''\<newline>Input: What skills should I learn?''
           @ ''\<newline>\<newline>Analyze the user's major and input to suggest relevant career paths, ''
           @ ''skills to develop, and learning resources. ''
           @ ''If the major is not in the knowledge base, reason about related fields ''
           @ ''and provide plausible suggestions. ''
           @ ''Keep responses friendly, professional, and under 200 words.\<newline>''),
              HumanMessage ''Major: Computer Science\<newline>Input: What skills should I learn?'']"
    by (simp add: expected_prompt_def instruction_head_def instruction_tail_def
        json_dumps_load_career_data)
next
  have m: "(''Computer Science'', the (map_of load_career_data ''Computer Science''))
      \<in> set load_career_data"
    by (simp add: load_career_data_def)
  have c: "(''careers'', [''Software Engineer'', ''Data Scientist'', ''Cybersecurity Analyst''])
      \<in> set (the (map_of load_career_data ''Computer Science''))"
    by (simp add: load_career_data_def)
  have "sublist (json_str ''careers'' @ '': ''
          @ json_list 2 [''Software Engineer'', ''Data Scientist'', ''Cybersecurity Analyst''])
        (content_of (hd (expected_prompt repr load_career_data ''Computer Science''
                ''What skills should I learn?'' [])))"
    by (rule sublist_system_message [OF sublist_json_table [OF m c]])
  then show "sublist (''\"careers\": [\<newline>''
               @ ''      \"Software Engineer\",\<newline>''
               @ ''      \"Data Scientist\",\<newline>''
               @ ''      \"Cybersecurity Analyst\"\<newline>''
               @ ''    ]'')
             (content_of (hd (expected_prompt repr load_career_data ''Computer Science''
                ''What skills should I learn?'' [])))"
    by (simp only: json_careers_computer_science)
next
  have m: "(''Computer Science'', the (map_of load_career_data ''Computer Science''))
      \<in> set load_career_data"
    by (simp add: load_career_data_def)
  have c: "(''skills'', [''Python'', ''Java'', ''Data Analysis'', ''Cybersecurity''])
      \<in> set (the (map_of load_career_data ''Computer Science''))"
    by (simp add: load_career_data_def)
  have "sublist (json_str ''skills'' @ '': ''
          @ json_list 2 [''Python'', ''Java'', ''Data Analysis'', ''Cybersecurity''])
        (content_of (hd (expected_prompt repr load_career_data ''Computer Science''
                ''What skills should I learn?'' [])))"
    by (rule sublist_system_message [OF sublist_json_table [OF m c]])
  then show "sublist (''\"skills\": [\<newline>''
               @ ''      \"Python\",\<newline>''
               @ ''      \"Java\",\<newline>''
               @ ''      \"Data Analysis\",\<newline>''
               @ ''      \"Cybersecurity\"\<newline>''
               @ ''    ]'')
             (content_of (hd (expected_prompt repr load_career_data ''Computer Science''
                ''What skills should I learn?'' [])))"
    by (simp only: json_skills_computer_science)
qed

theorem end_to_end_computer_science_witness:
  "chatbot_response ''What skills should I learn?'' ''Computer Science''
     (runnable_with_history (\<lambda>ms. []) (\<lambda>p. Inr ''Learn Python and data analysis.''))
     load_career_data (Some ''s1'')
     \<lparr>files = Map.empty, environ = Map.empty, session_state = Map.empty, ui = [], calls = []\<rparr>
   = (Inr ''Learn Python and data analysis.'',
      \<lparr>files = Map.empty, environ = Map.empty,
       session_state = [''s1'' \<mapsto> ChatMessageHistory
          [HumanMessage ''What skills should I learn?'',
           AIMessage ''Learn Python and data analysis.'']],
       ui = [],
       calls = [expected_prompt (\<lambda>ms. []) load_career_data ''Computer Science''
                  ''What skills should I learn?'' []]\<rparr>)"
proof -
  let ?w = "\<lparr>files = Map.empty, environ = Map.empty, session_state = Map.empty, ui = [],
        calls = []\<rparr> :: world"
  have fresh: "session_state ?w ''s1'' = None"
    by simp
  from end_to_end_computer_science [OF fresh, of "\<lambda>ms. []", THEN conjunct1]
  show ?thesis
    by simp
qed


subsection \<open>The page script\<close>

lemma emit_fields [simp]:
  "session_state (emit ev w) = session_state w"
  "calls (emit ev w) = calls w"
  "files (emit ev w) = files w"
  "environ (emit ev w) = environ w"
  "ui (emit ev w) = ui w @ [ev]"
  by (simp_all add: emit_def)

lemma append_turn_list:
  "session_state w ''messages'' = Some (PyList ts) \<Longrightarrow>
   append_turn t w =
     (Inr (), w\<lparr>session_state := (session_state w)(''messages'' \<mapsto> PyList (ts @ [t]))\<rparr>)"
  by (simp add: append_turn_def)

lemma append_turn_other:
  "k \<noteq> ''messages'' \<Longrightarrow> session_state (snd (append_turn t w)) k = session_state w k"
  by (simp add: append_turn_def split: option.splits stored.splits)

lemma append_turn_fields:
  "calls (snd (append_turn t w)) = calls w"
  "files (snd (append_turn t w)) = files w"
  "environ (snd (append_turn t w)) = environ w"
  "ui (snd (append_turn t w)) = ui w"
  by (simp_all add: append_turn_def split: option.splits stored.splits)

lemma append_user_turn_list:
  "session_state w ''messages'' = Some (PyList ts) \<Longrightarrow>
   append_user_turn user_input w =
     (Inr (),
      w\<lparr>ui := ui w @ [ChatMessage ''user'' user_input],
         session_state := (session_state w)
           (''messages'' \<mapsto> PyList (ts @ [\<lparr>role = ''user'', content = user_input\<rparr>]))\<rparr>)"
  by (simp add: append_user_turn_def append_turn_def emit_def)

lemma chatbot_response_other:
  assumes "k \<noteq> sid"
  shows "session_state (snd (chatbot_response user_input major (runnable_with_history repr llm)
            cd (Some sid) w)) k = session_state w k"
proof (cases "case session_state w sid of Some (PyList ts) \<Rightarrow> False | _ \<Rightarrow> True")
  case True
  from assms show ?thesis
    by (simp add: chatbot_response_wrapped [OF True] get_session_history_other
        split: sum.splits)
next
  case False
  then obtain ts where "session_state w sid = Some (PyList ts)"
    by (auto split: option.splits stored.splits)
  then show ?thesis
    by (simp add: chatbot_response_list)
qed

lemma chatbot_response_fields:
  "ui (snd (chatbot_response user_input major (runnable_with_history repr llm) cd (Some sid) w))
     = ui w"
  "files (snd (chatbot_response user_input major (runnable_with_history repr llm) cd (Some sid) w))
     = files w"
  "environ (snd (chatbot_response user_input major (runnable_with_history repr llm) cd (Some sid) w))
     = environ w"
proof -
  show "ui (snd (chatbot_response user_input major (runnable_with_history repr llm) cd (Some sid) w))
     = ui w"
  proof (cases "case session_state w sid of Some (PyList ts) \<Rightarrow> False | _ \<Rightarrow> True")
    case True
    show ?thesis
      by (simp add: chatbot_response_wrapped [OF True] split: sum.splits)
  next
    case False
    then obtain ts where "session_state w sid = Some (PyList ts)"
      by (auto split: option.splits stored.splits)
    then show ?thesis by (simp add: chatbot_response_list)
  qed
  show "files (snd (chatbot_response user_input major (runnable_with_history repr llm) cd (Some sid) w))
     = files w"
  proof (cases "case session_state w sid of Some (PyList ts) \<Rightarrow> False | _ \<Rightarrow> True")
    case True
    show ?thesis
      by (simp add: chatbot_response_wrapped [OF True] split: sum.splits)
  next
    case False
    then obtain ts where "session_state w sid = Some (PyList ts)"
      by (auto split: option.splits stored.splits)
    then show ?thesis by (simp add: chatbot_response_list)
  qed
  show "environ (snd (chatbot_response user_input major (runnable_with_history repr llm) cd (Some sid) w))
     = environ w"
  proof (cases "case session_state w sid of Some (PyList ts) \<Rightarrow> False | _ \<Rightarrow> True")
    case True
    show ?thesis
      by (simp add: chatbot_response_wrapped [OF True] split: sum.splits)
  next
    case False
    then obtain ts where "session_state w sid = Some (PyList ts)"
      by (auto split: option.splits stored.splits)
    then show ?thesis by (simp add: chatbot_response_list)
  qed
qed


lemma handle_input_unfold:
  assumes "user_input \<noteq> []" and "major \<noteq> []"
    and "session_state w ''messages'' = Some (PyList ts)"
  shows "handle_input user_input major runnable cd w =
     (case chatbot_response user_input major runnable cd None
             (snd (append_user_turn user_input w)) of
        (Inl (Exception msg), w2) \<Rightarrow>
          (Inr (), emit (Error (''Error generating response: '' @ msg)) w2)
      | (Inr response, w2) \<Rightarrow>
          (case append_turn \<lparr>role = ''assistant'', content = response\<rparr>
                  (emit (ChatMessage ''assistant'' response) w2) of
             (Inl (Exception msg), w3) \<Rightarrow>
               (Inr (), emit (Error (''Error generating response: '' @ msg)) w3)
           | (Inr u, w3) \<Rightarrow> (Inr (), w3)))"
  using assms
  by (simp add: handle_input_def append_user_turn_list split: prod.splits sum.splits exn.splits)


lemma append_user_turn_snd:
  "session_state w ''messages'' = Some (PyList ts) \<Longrightarrow>
   snd (append_user_turn user_input w) =
     w\<lparr>ui := ui w @ [ChatMessage ''user'' user_input],
        session_state := (session_state w)
          (''messages'' \<mapsto> PyList (ts @ [\<lparr>role = ''user'', content = user_input\<rparr>]))\<rparr>"
  by (simp add: append_user_turn_list)

lemma chatbot_response_after_user_turn:
  assumes "session_state w ''messages'' = Some (PyList ts)"
  shows "session_state (snd (chatbot_response user_input major (runnable_with_history repr llm) cd
           None (snd (append_user_turn user_input w)))) ''messages''
         = Some (PyList (ts @ [\<lparr>role = ''user'', content = user_input\<rparr>]))"
    and "ui (snd (chatbot_response user_input major (runnable_with_history repr llm) cd
           None (snd (append_user_turn user_input w))))
         = ui w @ [ChatMessage ''user'' user_input]"
proof -
  have ne: "''messages'' \<noteq> ''default''" by simp
  show "session_state (snd (chatbot_response user_input major (runnable_with_history repr llm) cd
           None (snd (append_user_turn user_input w)))) ''messages''
         = Some (PyList (ts @ [\<lparr>role = ''user'', content = user_input\<rparr>]))"
    by (simp only: chatbot_response_default chatbot_response_other [OF ne])
      (simp add: append_user_turn_list [OF assms])
  show "ui (snd (chatbot_response user_input major (runnable_with_history repr llm) cd
           None (snd (append_user_turn user_input w))))
         = ui w @ [ChatMessage ''user'' user_input]"
    by (simp only: chatbot_response_default chatbot_response_fields)
      (simp add: append_user_turn_list [OF assms])
qed

lemma failing_call_example:
  "chatbot_response ''Hi'' ''Biology''
     (runnable_with_history (\<lambda>ms. []) (\<lambda>p. Inl (Exception ''quota''))) load_career_data None
     (\<lparr>files = Map.empty, environ = Map.empty,
       session_state = [''messages'' \<mapsto> PyList []], ui = [], calls = []\<rparr>
      \<lparr>ui := ui \<lparr>files = Map.empty, environ = Map.empty,
                  session_state = [''messages'' \<mapsto> PyList []], ui = [], calls = []\<rparr>
             @ [ChatMessage ''user'' ''Hi''],
        session_state := (session_state \<lparr>files = Map.empty, environ = Map.empty,
                  session_state = [''messages'' \<mapsto> PyList []], ui = [], calls = []\<rparr>)
          (''messages'' \<mapsto> PyList ([] @ [\<lparr>role = ''user'', content = ''Hi''\<rparr>]))\<rparr>)
   = (Inl (Exception ''quota''),
      \<lparr>files = Map.empty, environ = Map.empty,
       session_state = [''messages'' \<mapsto> PyList [\<lparr>role = ''user'', content = ''Hi''\<rparr>],
                        ''default'' \<mapsto> ChatMessageHistory []],
       ui = [ChatMessage ''user'' ''Hi''],
       calls = [expected_prompt (\<lambda>ms. []) load_career_data ''Biology'' ''Hi'' []]\<rparr>)"
proof -
  let ?w1 = "\<lparr>files = Map.empty, environ = Map.empty,
       session_state = [''messages'' \<mapsto> PyList [\<lparr>role = ''user'', content = ''Hi''\<rparr>]],
       ui = [ChatMessage ''user'' ''Hi''], calls = []\<rparr> :: world"
  have ok: "case session_state ?w1 ''default'' of Some (PyList ts) \<Rightarrow> False | _ \<Rightarrow> True"
    by simp
  have h: "history ''default'' (session_state ?w1) = []"
    by (simp add: history_def)
  have "chatbot_response ''Hi'' ''Biology''
     (runnable_with_history (\<lambda>ms. []) (\<lambda>p. Inl (Exception ''quota''))) load_career_data None ?w1
   = (Inl (Exception ''quota''),
      \<lparr>files = Map.empty, environ = Map.empty,
       session_state = [''messages'' \<mapsto> PyList [\<lparr>role = ''user'', content = ''Hi''\<rparr>],
                        ''default'' \<mapsto> ChatMessageHistory []],
       ui = [ChatMessage ''user'' ''Hi''],
       calls = [expected_prompt (\<lambda>ms. []) load_career_data ''Biology'' ''Hi'' []]\<rparr>)"
    by (simp only: chatbot_response_default chatbot_response_wrapped [OF ok] h sum.case)
      (simp add: get_session_history_def)
  then show ?thesis by simp
qed


text \<open>
  C2. Whenever the call of \<open>chatbot_response\<close> raises, whatever the runnable and whatever
  the exception: the run ends normally, the world is the one the call left with one more
  element on the page, the error message with the text of the exception, and nothing else
  is changed. In particular the transcript is the one the call left: the assistant turn of
  line 131 is not appended. (The question and the major are non-empty and the transcript
  is a list of turns, so that the call is made; the world of the call is the one after
  the echo and the appending of the user turn, lines 122 to 124.)
\<close>

theorem shim_failure_shown:
  assumes "user_input \<noteq> []" and "major \<noteq> []"
    and "session_state w ''messages'' = Some (PyList ts)"
    and "chatbot_response user_input major runnable career_data None
           (w\<lparr>ui := ui w @ [ChatMessage ''user'' user_input],
              session_state := (session_state w)
                (''messages'' \<mapsto> PyList (ts @ [\<lparr>role = ''user'', content = user_input\<rparr>]))\<rparr>)
         = (Inl (Exception msg), w2)"
  shows "handle_input user_input major runnable career_data w
         = (Inr (), w2\<lparr>ui := ui w2 @ [Error (''Error generating response: '' @ msg)]\<rparr>)
         \<and> transcript (session_state (snd (handle_input user_input major runnable career_data w)))
           = transcript (session_state w2)"
proof -
  have "handle_input user_input major runnable career_data w
         = (Inr (), w2\<lparr>ui := ui w2 @ [Error (''Error generating response: '' @ msg)]\<rparr>)"
    using assms(4)
    by (simp add: handle_input_unfold [OF assms(1,2,3)] append_user_turn_snd [OF assms(3)]
        emit_def)
  then show ?thesis by simp
qed

theorem shim_failure_shown_witness:
  "handle_input ''Hi'' ''Biology''
     (runnable_with_history (\<lambda>ms. []) (\<lambda>p. Inl (Exception ''quota''))) load_career_data
     \<lparr>files = Map.empty, environ = Map.empty,
       session_state = [''messages'' \<mapsto> PyList []], ui = [], calls = []\<rparr>
   = (Inr (),
      \<lparr>files = Map.empty, environ = Map.empty,
       session_state = [''messages'' \<mapsto> PyList [\<lparr>role = ''user'', content = ''Hi''\<rparr>],
                        ''default'' \<mapsto> ChatMessageHistory []],
       ui = [ChatMessage ''user'' ''Hi'', Error ''Error generating response: quota''],
       calls = [expected_prompt (\<lambda>ms. []) load_career_data ''Biology'' ''Hi'' []]\<rparr>)"
proof -
  let ?w = "\<lparr>files = Map.empty, environ = Map.empty,
       session_state = [''messages'' \<mapsto> PyList []], ui = [], calls = []\<rparr> :: world"
  have a: "''Hi'' \<noteq> []" and b: "''Biology'' \<noteq> []" by simp_all
  have c: "session_state ?w ''messages'' = Some (PyList [])" by simp
  from shim_failure_shown [OF a b c failing_call_example, THEN conjunct1]
  show ?thesis by simp
qed


text \<open>
  C10. When the call of \<open>chatbot_response\<close> of the program (the model behind the history
  wrapper) raises, the transcript after the run is the transcript before it followed by
  the user turn: one turn longer, ending in the user turn, and not the transcript before
  the run. The call is made in the world that already holds the user turn.
\<close>

theorem failed_interaction_keeps_user_turn:
  assumes "user_input \<noteq> []" and "major \<noteq> []"
    and "session_state w ''messages'' = Some (PyList ts)"
    and "fst (chatbot_response user_input major (runnable_with_history repr llm) career_data None
           (w\<lparr>ui := ui w @ [ChatMessage ''user'' user_input],
              session_state := (session_state w)
                (''messages'' \<mapsto> PyList (ts @ [\<lparr>role = ''user'', content = user_input\<rparr>]))\<rparr>))
         = Inl e"
  shows "transcript (session_state (snd (handle_input user_input major
            (runnable_with_history repr llm) career_data w)))
         = ts @ [\<lparr>role = ''user'', content = user_input\<rparr>]
         \<and> length (transcript (session_state (snd (handle_input user_input major
            (runnable_with_history repr llm) career_data w)))) = Suc (length ts)
         \<and> last (transcript (session_state (snd (handle_input user_input major
            (runnable_with_history repr llm) career_data w))))
           = \<lparr>role = ''user'', content = user_input\<rparr>
         \<and> transcript (session_state (snd (handle_input user_input major
            (runnable_with_history repr llm) career_data w))) \<noteq> ts"
proof -
  let ?w1 = "snd (append_user_turn user_input w)"
  let ?r = "chatbot_response user_input major (runnable_with_history repr llm) career_data None ?w1"
  obtain msg where e: "e = Exception msg" by (cases e)
  from assms(4) have f: "fst ?r = Inl (Exception msg)"
    by (simp only: append_user_turn_snd [OF assms(3)] e)
  have m: "session_state (snd ?r) ''messages''
      = Some (PyList (ts @ [\<lparr>role = ''user'', content = user_input\<rparr>]))"
    by (rule chatbot_response_after_user_turn(1) [OF assms(3)])
  obtain x w2 where r: "?r = (x, w2)" by (cases ?r)
  with f have r': "?r = (Inl (Exception msg), w2)" by simp
  have "handle_input user_input major (runnable_with_history repr llm) career_data w
      = (Inr (), emit (Error (''Error generating response: '' @ msg)) (snd ?r))"
    by (simp add: handle_input_unfold [OF assms(1,2,3)] r')
  with m have t: "transcript (session_state (snd (handle_input user_input major
            (runnable_with_history repr llm) career_data w)))
         = ts @ [\<lparr>role = ''user'', content = user_input\<rparr>]"
    by (simp add: transcript_def)
  show ?thesis
    by (simp only: t) simp
qed

theorem failed_interaction_keeps_user_turn_witness:
  "transcript (session_state (snd (handle_input ''Hi'' ''Biology''
     (runnable_with_history (\<lambda>ms. []) (\<lambda>p. Inl (Exception ''quota''))) load_career_data
     \<lparr>files = Map.empty, environ = Map.empty,
       session_state = [''messages'' \<mapsto> PyList []], ui = [], calls = []\<rparr>)))
   = [\<lparr>role = ''user'', content = ''Hi''\<rparr>]"
proof -
  let ?w = "\<lparr>files = Map.empty, environ = Map.empty,
       session_state = [''messages'' \<mapsto> PyList []], ui = [], calls = []\<rparr> :: world"
  have a: "''Hi'' \<noteq> []" and b: "''Biology'' \<noteq> []" by simp_all
  have c: "session_state ?w ''messages'' = Some (PyList [])" by simp
  have d: "fst (chatbot_response ''Hi'' ''Biology''
     (runnable_with_history (\<lambda>ms. []) (\<lambda>p. Inl (Exception ''quota''))) load_career_data None
     (?w\<lparr>ui := ui ?w @ [ChatMessage ''user'' ''Hi''],
        session_state := (session_state ?w)
          (''messages'' \<mapsto> PyList ([] @ [\<lparr>role = ''user'', content = ''Hi''\<rparr>]))\<rparr>))
     = Inl (Exception ''quota'')"
    by (simp only: failing_call_example fst_conv)
  from failed_interaction_keeps_user_turn [OF a b c d, THEN conjunct1]
  show ?thesis by simp
qed



lemma handle_input_model_replies:
  assumes "user_input \<noteq> []" and "major \<noteq> []"
    and "session_state w ''messages'' = Some (PyList ts)"
    and "case session_state w ''default'' of Some (PyList xs) \<Rightarrow> False | _ \<Rightarrow> True"
    and "llm (expected_prompt repr cd major user_input (history ''default'' (session_state w)))
         = Inr reply"
  shows "handle_input user_input major (runnable_with_history repr llm) cd w =
     (Inr (),
      w\<lparr>ui := ui w @ [ChatMessage ''user'' user_input, ChatMessage ''assistant'' reply],
         session_state := (session_state w)
           (''default'' \<mapsto> ChatMessageHistory
              (history ''default'' (session_state w)
               @ [HumanMessage user_input, AIMessage reply]),
            ''messages'' \<mapsto> PyList (ts @ [\<lparr>role = ''user'', content = user_input\<rparr>,
                                            \<lparr>role = ''assistant'', content = reply\<rparr>])),
         calls := calls w
           @ [expected_prompt repr cd major user_input (history ''default'' (session_state w))]\<rparr>)"
proof -
  let ?w1 = "snd (append_user_turn user_input w)"
  have w1: "?w1 = w\<lparr>ui := ui w @ [ChatMessage ''user'' user_input],
        session_state := (session_state w)
          (''messages'' \<mapsto> PyList (ts @ [\<lparr>role = ''user'', content = user_input\<rparr>]))\<rparr>"
    by (rule append_user_turn_snd [OF assms(3)])
  have ok1: "case session_state ?w1 ''default'' of Some (PyList xs) \<Rightarrow> False | _ \<Rightarrow> True"
    using assms(4) by (simp add: w1)
  have h1: "history ''default'' (session_state ?w1) = history ''default'' (session_state w)"
    by (simp add: w1 history_def)
  have "chatbot_response user_input major (runnable_with_history repr llm) cd None ?w1 =
      (Inr reply,
       ?w1\<lparr>session_state := (session_state ?w1)
             (''default'' \<mapsto> ChatMessageHistory
                (history ''default'' (session_state w)
                 @ [HumanMessage user_input, AIMessage reply])),
           calls := calls ?w1
             @ [expected_prompt repr cd major user_input (history ''default'' (session_state w))]\<rparr>)"
    by (simp only: chatbot_response_default chatbot_response_wrapped [OF ok1] h1 assms(5)
        sum.case)
  then show ?thesis
    by (simp add: handle_input_unfold [OF assms(1,2,3)] emit_def append_turn_def)
      (simp add: w1 fun_upd_twist)
qed




text \<open>
  C6. When the environment holds no key (the variable is not set, or is empty) and no key
  is typed into the page, \<open>main\<close> ends normally after the two error messages, whatever
  the other inputs and whatever the constructor of the model would do. The world is the
  one before the run with the title, the introduction, the first error message, the key
  field and the second error message on the page, and with the transcript key set to the
  empty list if it was not set. No prompt is sent to the model, and the transcript is the
  one before the run.
\<close>

theorem missing_credential_halts:
  assumes "environ w ''GOOGLE_API_KEY'' = None \<or> environ w ''GOOGLE_API_KEY'' = Some []"
    and "api_key_field inp = []"
  shows "main ChatGoogleGenerativeAI repr inp w
         = (Inr (),
            w\<lparr>ui := ui w
                 @ [Title ''AI Career Guidance Chatbot for Undergraduates'',
                    Write ''Enter your academic major and ask for career advice!'',
                    Error ''Gemini API key not found in .env file. Please enter it below.'',
                    TextInput ''Enter your Gemini API key:'',
                    Error ''Gemini API key is required to proceed.''],
               session_state :=
                 (if ''messages'' \<in> dom (session_state w) then session_state w
                  else (session_state w)(''messages'' \<mapsto> PyList []))\<rparr>)
         \<and> calls (snd (main ChatGoogleGenerativeAI repr inp w)) = calls w
         \<and> transcript (session_state (snd (main ChatGoogleGenerativeAI repr inp w)))
           = transcript (session_state w)"
proof -
  have eq: "main ChatGoogleGenerativeAI repr inp w
         = (Inr (),
            w\<lparr>ui := ui w
                 @ [Title ''AI Career Guidance Chatbot for Undergraduates'',
                    Write ''Enter your academic major and ask for career advice!'',
                    Error ''Gemini API key not found in .env file. Please enter it below.'',
                    TextInput ''Enter your Gemini API key:'',
                    Error ''Gemini API key is required to proceed.''],
               session_state :=
                 (if ''messages'' \<in> dom (session_state w) then session_state w
                  else (session_state w)(''messages'' \<mapsto> PyList []))\<rparr>)"
    using assms
    by (auto simp add: main_def resolve_api_key_def emit_def init_messages_def Let_def)
  have "transcript (if ''messages'' \<in> dom (session_state w) then session_state w
                  else (session_state w)(''messages'' \<mapsto> PyList []))
      = transcript (session_state w)"
    by (auto simp add: transcript_def split: option.splits)
  with eq show ?thesis
    by (simp only: snd_conv) simp
qed

theorem missing_credential_halts_witness:
  "main (\<lambda>model key. Inr (\<lambda>p. Inr ''ok'')) (\<lambda>ms. [])
     \<lparr>api_key_field = [], major_field = ''Biology'', question_field = ''Hi''\<rparr>
     \<lparr>files = Map.empty, environ = Map.empty, session_state = Map.empty, ui = [], calls = []\<rparr>
   = (Inr (),
      \<lparr>files = Map.empty, environ = Map.empty,
       session_state = [''messages'' \<mapsto> PyList []],
       ui = [Title ''AI Career Guidance Chatbot for Undergraduates'',
             Write ''Enter your academic major and ask for career advice!'',
             Error ''Gemini API key not found in .env file. Please enter it below.'',
             TextInput ''Enter your Gemini API key:'',
             Error ''Gemini API key is required to proceed.''],
       calls = []\<rparr>)"
proof -
  let ?w = "\<lparr>files = Map.empty, environ = Map.empty, session_state = Map.empty, ui = [],
       calls = []\<rparr> :: world"
  let ?inp = "\<lparr>api_key_field = [], major_field = ''Biology'', question_field = ''Hi''\<rparr>"
  have a: "environ ?w ''GOOGLE_API_KEY'' = None \<or> environ ?w ''GOOGLE_API_KEY'' = Some []"
    by simp
  have b: "api_key_field ?inp = []" by simp
  from missing_credential_halts [OF a b, THEN conjunct1]
  show ?thesis by simp
qed


lemma main_unfold:
  "main ChatGoogleGenerativeAI repr inp w =
     (case resolve_api_key inp
             ((emit (Write ''Enter your academic major and ask for career advice!'')
                 (emit (Title ''AI Career Guidance Chatbot for Undergraduates'') w))
              \<lparr>session_state := init_messages (session_state w)\<rparr>) of
        (None, w4) \<Rightarrow> (Inr (), w4)
      | (Some api_key, w4) \<Rightarrow>
          (case ChatGoogleGenerativeAI ''gemini-1.5-flash'' api_key of
             Inl (Exception msg) \<Rightarrow>
               (Inr (), emit (Error (''Failed to initialize Gemini model: '' @ msg)) w4)
           | Inr llm \<Rightarrow>
               (case display_history
                       (emit (TextInput ''Ask a career-related question:'')
                          (emit (TextInput
                             ''Enter your academic major (e.g., Computer Science, Business, Biology):'')
                             w4)) of
                  (Inl e, w7) \<Rightarrow> (Inl e, w7)
                | (Inr u, w7) \<Rightarrow>
                    handle_input (question_field inp) (major_field inp)
                      (runnable_with_history repr llm) load_career_data w7)))"
  unfolding main_def runnable_with_history_def Let_def
  by simp

lemma resolve_api_key_fields:
  "session_state (snd (resolve_api_key inp w)) = session_state w"
  "calls (snd (resolve_api_key inp w)) = calls w"
  "files (snd (resolve_api_key inp w)) = files w"
  by (simp_all add: resolve_api_key_def Let_def)

lemma display_history_fields:
  "session_state (snd (display_history w)) = session_state w"
  "calls (snd (display_history w)) = calls w"
  "files (snd (display_history w)) = files w"
  by (simp_all add: display_history_def split: option.splits stored.splits)

lemma init_messages_other: "k \<noteq> ''messages'' \<Longrightarrow> init_messages ss k = ss k"
  by (simp add: init_messages_def)

lemma handle_input_other:
  assumes "k \<noteq> ''messages''" and "k \<noteq> ''default''"
  shows "session_state (snd (handle_input user_input major (runnable_with_history repr llm)
            cd w)) k = session_state w k"
proof (cases "user_input \<noteq> [] \<and> major \<noteq> []")
  case False
  then show ?thesis by (auto simp add: handle_input_def)
next
  case True
  obtain r1 w1 where a: "append_user_turn user_input w = (r1, w1)"
    by (cases "append_user_turn user_input w")
  have "session_state (snd (append_user_turn user_input w)) k = session_state w k"
    by (simp add: append_user_turn_def append_turn_other [OF assms(1)])
  with a have s1: "session_state w1 k = session_state w k" by simp
  show ?thesis
  proof (cases r1)
    case (Inl e)
    with True a s1 show ?thesis by (simp add: handle_input_def)
  next
    case (Inr u)
    obtain r2 w2 where b: "chatbot_response user_input major (runnable_with_history repr llm)
        cd None w1 = (r2, w2)"
      by (cases "chatbot_response user_input major (runnable_with_history repr llm) cd None w1")
    have "session_state (snd (chatbot_response user_input major (runnable_with_history repr llm)
        cd None w1)) k = session_state w1 k"
      by (simp only: chatbot_response_default chatbot_response_other [OF assms(2)])
    with b have s2: "session_state w2 k = session_state w1 k" by simp
    show ?thesis
    proof (cases r2)
      case (Inl e)
      with True a Inr b s1 s2 show ?thesis
        by (cases e) (simp add: handle_input_def)
    next
      case r: (Inr response)
      obtain r3 w3 where c: "append_turn \<lparr>role = ''assistant'', content = response\<rparr>
          (emit (ChatMessage ''assistant'' response) w2) = (r3, w3)"
        by (cases "append_turn \<lparr>role = ''assistant'', content = response\<rparr>
          (emit (ChatMessage ''assistant'' response) w2)")
      have "session_state (snd (append_turn \<lparr>role = ''assistant'', content = response\<rparr>
          (emit (ChatMessage ''assistant'' response) w2))) k = session_state w2 k"
        by (simp add: append_turn_other [OF assms(1)])
      with c have s3: "session_state w3 k = session_state w2 k" by simp
      from True a Inr b r c s1 s2 s3 show ?thesis
        by (cases r3) (simp_all add: handle_input_def split: exn.splits)
    qed
  qed
qed

lemma main_other:
  assumes "k \<noteq> ''messages''" and "k \<noteq> ''default''"
  shows "session_state (snd (main ChatGoogleGenerativeAI repr inp w)) k = session_state w k"
proof -
  let ?w3 = "(emit (Write ''Enter your academic major and ask for career advice!'')
                 (emit (Title ''AI Career Guidance Chatbot for Undergraduates'') w))
              \<lparr>session_state := init_messages (session_state w)\<rparr>"
  obtain r4 w4 where a: "resolve_api_key inp ?w3 = (r4, w4)"
    by (cases "resolve_api_key inp ?w3")
  have "session_state (snd (resolve_api_key inp ?w3)) = session_state ?w3"
    by (rule resolve_api_key_fields)
  with a have s4: "session_state w4 k = session_state w k"
    by (simp add: init_messages_other [OF assms(1)])
  show ?thesis
  proof (cases r4)
    case None
    with a s4 show ?thesis by (simp add: main_unfold)
  next
    case (Some api_key)
    show ?thesis
    proof (cases "ChatGoogleGenerativeAI ''gemini-1.5-flash'' api_key")
      case (Inl e)
      with a Some s4 show ?thesis by (cases e) (simp add: main_unfold)
    next
      case (Inr llm)
      let ?w6 = "emit (TextInput ''Ask a career-related question:'')
                          (emit (TextInput
                             ''Enter your academic major (e.g., Computer Science, Business, Biology):'')
                             w4)"
      obtain r7 w7 where b: "display_history ?w6 = (r7, w7)"
        by (cases "display_history ?w6")
      have "session_state (snd (display_history ?w6)) = session_state ?w6"
        by (rule display_history_fields)
      with b have s7: "session_state w7 k = session_state w4 k" by simp
      show ?thesis
      proof (cases r7)
        case (Inl e)
        with a Some Inr b s4 s7 show ?thesis by (simp add: main_unfold)
      next
        case u: (Inr u)
        have "session_state (snd (handle_input (question_field inp) (major_field inp)
                      (runnable_with_history repr llm) load_career_data w7)) k
            = session_state w7 k"
          by (rule handle_input_other [OF assms])
        with a Some Inr b u s4 s7 show ?thesis by (simp add: main_unfold)
      qed
    qed
  qed
qed

text \<open>
  C9. The session id of \<open>chatbot_response\<close> defaults to \<open>default\<close>: called without one,
  it invokes the runnable with the session id \<open>default\<close>. The page script calls it without
  a session id, so a run depends on the runnable only through what it does for the session
  id \<open>default\<close>. A run of \<open>main\<close> changes the session state at no key other than
  \<open>messages\<close> (the transcript) and \<open>default\<close>: no other key is created or written.
  And the history that an interaction reads for the prompt and extends with the question
  and the reply is the one stored under \<open>default\<close>.
\<close>

theorem only_default_session_key:
  "chatbot_response user_input major runnable cd None w
     = (case runnable [''career_data'' \<mapsto> Str (json_dumps cd), ''major'' \<mapsto> Str major,
                       ''user_input'' \<mapsto> Str user_input] ''default'' w of
          (Inl e, w') \<Rightarrow> (Inl e, w')
        | (Inr response, w') \<Rightarrow> (Inr (content_of response), w'))
   \<and> ((\<forall>vars w'. runnable vars ''default'' w' = runnable' vars ''default'' w') \<longrightarrow>
        handle_input user_input major runnable cd w
        = handle_input user_input major runnable' cd w)
   \<and> (\<forall>k. k \<noteq> ''messages'' \<and> k \<noteq> ''default'' \<longrightarrow>
          session_state (snd (main ChatGoogleGenerativeAI repr inp w)) k = session_state w k)
   \<and> (user_input \<noteq> [] \<and> major \<noteq> []
        \<and> session_state w ''messages'' = Some (PyList ts)
        \<and> (case session_state w ''default'' of Some (PyList xs) \<Rightarrow> False | _ \<Rightarrow> True)
        \<and> llm (expected_prompt repr cd major user_input (history ''default'' (session_state w))) = Inr reply \<longrightarrow>
        calls (snd (handle_input user_input major (runnable_with_history repr llm) cd w))
          = calls w @ [expected_prompt repr cd major user_input (history ''default'' (session_state w))]
        \<and> session_state (snd (handle_input user_input major (runnable_with_history repr llm) cd w)) ''default''
          = Some (ChatMessageHistory
                    (history ''default'' (session_state w)
                     @ [HumanMessage user_input, AIMessage reply])))"
proof (intro conjI impI allI)
  show "chatbot_response user_input major runnable cd None w
     = (case runnable [''career_data'' \<mapsto> Str (json_dumps cd), ''major'' \<mapsto> Str major,
                       ''user_input'' \<mapsto> Str user_input] ''default'' w of
          (Inl e, w') \<Rightarrow> (Inl e, w')
        | (Inr response, w') \<Rightarrow> (Inr (content_of response), w'))"
    by (simp add: chatbot_response_def)
next
  assume "\<forall>vars w'. runnable vars ''default'' w' = runnable' vars ''default'' w'"
  then have eq: "chatbot_response user_input major runnable cd None
      = chatbot_response user_input major runnable' cd None"
    by (intro ext) (simp add: chatbot_response_def)
  show "handle_input user_input major runnable cd w
        = handle_input user_input major runnable' cd w"
    unfolding handle_input_def eq by (rule refl)
next
  fix k
  assume "k \<noteq> ''messages'' \<and> k \<noteq> ''default''"
  then show "session_state (snd (main ChatGoogleGenerativeAI repr inp w)) k = session_state w k"
    by (simp add: main_other)
next
  assume a: "user_input \<noteq> [] \<and> major \<noteq> []
        \<and> session_state w ''messages'' = Some (PyList ts)
        \<and> (case session_state w ''default'' of Some (PyList xs) \<Rightarrow> False | _ \<Rightarrow> True)
        \<and> llm (expected_prompt repr cd major user_input (history ''default'' (session_state w))) = Inr reply"
  then show "calls (snd (handle_input user_input major (runnable_with_history repr llm) cd w))
          = calls w @ [expected_prompt repr cd major user_input (history ''default'' (session_state w))]"
    by (simp add: handle_input_model_replies)
next
  assume a: "user_input \<noteq> [] \<and> major \<noteq> []
        \<and> session_state w ''messages'' = Some (PyList ts)
        \<and> (case session_state w ''default'' of Some (PyList xs) \<Rightarrow> False | _ \<Rightarrow> True)
        \<and> llm (expected_prompt repr cd major user_input (history ''default'' (session_state w))) = Inr reply"
  then show "session_state (snd (handle_input user_input major (runnable_with_history repr llm) cd w)) ''default''
          = Some (ChatMessageHistory
                    (history ''default'' (session_state w)
                     @ [HumanMessage user_input, AIMessage reply]))"
    by (simp add: handle_input_model_replies)
qed

theorem only_default_session_key_witness:
  "session_state (snd (main (\<lambda>model key. Inr (\<lambda>p. Inr ''ok'')) (\<lambda>ms. [])
       \<lparr>api_key_field = [], major_field = ''Biology'', question_field = ''Hi''\<rparr>
       \<lparr>files = Map.empty, environ = [''GOOGLE_API_KEY'' \<mapsto> ''k''],
        session_state = [''s1'' \<mapsto> ChatMessageHistory [HumanMessage ''x'']],
        ui = [], calls = []\<rparr>)) ''s1''
   = Some (ChatMessageHistory [HumanMessage ''x''])
   \<and> session_state (snd (handle_input ''Hi'' ''Biology''
       (runnable_with_history (\<lambda>ms. []) (\<lambda>p. Inr ''ok'')) load_career_data
       \<lparr>files = Map.empty, environ = Map.empty,
        session_state = [''s1'' \<mapsto> ChatMessageHistory [HumanMessage ''x''],
                         ''messages'' \<mapsto> PyList []],
        ui = [], calls = []\<rparr>)) ''default''
   = Some (ChatMessageHistory [HumanMessage ''Hi'', AIMessage ''ok''])"
proof -
  let ?w = "\<lparr>files = Map.empty, environ = [''GOOGLE_API_KEY'' \<mapsto> ''k''],
        session_state = [''s1'' \<mapsto> ChatMessageHistory [HumanMessage ''x'']],
        ui = [], calls = []\<rparr> :: world"
  let ?v = "\<lparr>files = Map.empty, environ = Map.empty,
        session_state = [''s1'' \<mapsto> ChatMessageHistory [HumanMessage ''x''],
                         ''messages'' \<mapsto> PyList []],
        ui = [], calls = []\<rparr> :: world"
  have k: "''s1'' \<noteq> ''messages'' \<and> ''s1'' \<noteq> ''default''" by simp
  have a: "session_state (snd (main (\<lambda>model key. Inr (\<lambda>p. Inr ''ok'')) (\<lambda>ms. [])
       \<lparr>api_key_field = [], major_field = ''Biology'', question_field = ''Hi''\<rparr> ?w)) ''s1''
     = Some (ChatMessageHistory [HumanMessage ''x''])"
    using only_default_session_key [THEN conjunct2, THEN conjunct2, THEN conjunct1, THEN spec,
        THEN mp, OF k, of "\<lambda>model key. Inr (\<lambda>p. Inr ''ok'')" "\<lambda>ms. []"
        "\<lparr>api_key_field = [], major_field = ''Biology'', question_field = ''Hi''\<rparr>" ?w]
    by simp
  have h: "history ''default'' (session_state ?v) = []"
    by (simp add: history_def)
  have p: "''Hi'' \<noteq> [] \<and> ''Biology'' \<noteq> []
        \<and> session_state ?v ''messages'' = Some (PyList [])
        \<and> (case session_state ?v ''default'' of Some (PyList xs) \<Rightarrow> False | _ \<Rightarrow> True)
        \<and> (\<lambda>p. Inr ''ok'' :: exn + string) (expected_prompt (\<lambda>ms. []) load_career_data ''Biology'' ''Hi''
               (history ''default'' (session_state ?v))) = Inr ''ok''"
    by simp
  have b: "session_state (snd (handle_input ''Hi'' ''Biology''
       (runnable_with_history (\<lambda>ms. []) (\<lambda>p. Inr ''ok'')) load_career_data ?v)) ''default''
     = Some (ChatMessageHistory [HumanMessage ''Hi'', AIMessage ''ok''])"
    using only_default_session_key [THEN conjunct2, THEN conjunct2, THEN conjunct2, THEN mp,
        OF p, THEN conjunct2] h
    by simp
  from a b show ?thesis by (rule conjI)
qed


lemma load_dotenv_files: "files (load_dotenv w) = files w"
  by (simp add: load_dotenv_def split: option.splits)

lemma load_dotenv_files_upd:
  "fs ''.env'' = files w ''.env'' \<Longrightarrow>
   load_dotenv (w\<lparr>files := fs\<rparr>) = (load_dotenv w)\<lparr>files := fs\<rparr>"
  by (simp add: load_dotenv_def split: option.splits)

lemma emit_files_upd: "emit ev (w\<lparr>files := fs\<rparr>) = (emit ev w)\<lparr>files := fs\<rparr>"
  by (simp add: emit_def)

lemma resolve_api_key_files_upd:
  "resolve_api_key inp (w\<lparr>files := fs\<rparr>)
   = (fst (resolve_api_key inp w), (snd (resolve_api_key inp w))\<lparr>files := fs\<rparr>)"
  by (simp add: resolve_api_key_def emit_def Let_def)

lemma display_history_files_upd:
  "display_history (w\<lparr>files := fs\<rparr>)
   = (fst (display_history w), (snd (display_history w))\<lparr>files := fs\<rparr>)"
  by (simp add: display_history_def split: option.splits stored.splits)

lemma append_turn_files_upd:
  "append_turn t (w\<lparr>files := fs\<rparr>)
   = (fst (append_turn t w), (snd (append_turn t w))\<lparr>files := fs\<rparr>)"
  by (simp add: append_turn_def split: option.splits stored.splits)

lemma append_user_turn_files_upd:
  "append_user_turn user_input (w\<lparr>files := fs\<rparr>)
   = (fst (append_user_turn user_input w), (snd (append_user_turn user_input w))\<lparr>files := fs\<rparr>)"
  by (simp add: append_user_turn_def emit_files_upd append_turn_files_upd)

lemma pipe_files_upd:
  "pipe repr prompt llm vars (w\<lparr>files := fs\<rparr>)
   = (fst (pipe repr prompt llm vars w), (snd (pipe repr prompt llm vars w))\<lparr>files := fs\<rparr>)"
  by (simp add: pipe_def split: sum.splits)

lemma runnable_with_history_files_upd:
  "runnable_with_history repr llm vars sid (w\<lparr>files := fs\<rparr>)
   = (fst (runnable_with_history repr llm vars sid w),
      (snd (runnable_with_history repr llm vars sid w))\<lparr>files := fs\<rparr>)"
proof -
  obtain h ss1 where g: "get_session_history sid (session_state w) = (h, ss1)"
    by (cases "get_session_history sid (session_state w)")
  show ?thesis
  proof (cases h)
    case (PyList ts)
    with g show ?thesis
      by (simp add: runnable_with_history_def RunnableWithMessageHistory_def)
  next
    case (ChatMessageHistory hist)
    let ?c = "pipe repr get_prompt_template llm (vars(''chat_history'' \<mapsto> Messages hist))"
    obtain r2 w2 where p: "?c (w\<lparr>session_state := ss1\<rparr>) = (r2, w2)"
      by (cases "?c (w\<lparr>session_state := ss1\<rparr>)")
    have sw: "w\<lparr>session_state := ss1, files := fs\<rparr> = w\<lparr>files := fs, session_state := ss1\<rparr>"
      by (cases w) simp
    have c: "?c (w\<lparr>files := fs, session_state := ss1\<rparr>) = (r2, w2\<lparr>files := fs\<rparr>)"
      using pipe_files_upd [where w = "w\<lparr>session_state := ss1\<rparr>" and fs = fs and repr = repr
          and prompt = get_prompt_template and llm = llm
          and vars = "vars(''chat_history'' \<mapsto> Messages hist)"] p sw
      by simp
    show ?thesis
    proof (cases r2)
      case (Inl e)
      with g ChatMessageHistory c p show ?thesis
        by (simp add: runnable_with_history_def RunnableWithMessageHistory_def)
    next
      case (Inr out)
      show ?thesis
      proof (cases "vars ''user_input''")
        case None
        with g ChatMessageHistory c p Inr show ?thesis
          by (simp add: runnable_with_history_def RunnableWithMessageHistory_def)
      next
        case (Some v)
        obtain r3 ss3 where a:
          "add_messages sid (input_messages v @ [out]) (session_state w2) = (r3, ss3)"
          by (cases "add_messages sid (input_messages v @ [out]) (session_state w2)")
        with g ChatMessageHistory c p Inr Some show ?thesis
          by (cases r3)
            (simp_all add: runnable_with_history_def RunnableWithMessageHistory_def
              del: add_messages.simps)
      qed
    qed
  qed
qed

lemma chatbot_response_files_upd:
  "chatbot_response user_input major (runnable_with_history repr llm) cd sid (w\<lparr>files := fs\<rparr>)
   = (fst (chatbot_response user_input major (runnable_with_history repr llm) cd sid w),
      (snd (chatbot_response user_input major (runnable_with_history repr llm) cd sid w))
        \<lparr>files := fs\<rparr>)"
  by (simp add: chatbot_response_def runnable_with_history_files_upd Let_def
      split: prod.splits sum.splits)

lemma handle_input_files_upd:
  "handle_input user_input major (runnable_with_history repr llm) cd (w\<lparr>files := fs\<rparr>)
   = (fst (handle_input user_input major (runnable_with_history repr llm) cd w),
      (snd (handle_input user_input major (runnable_with_history repr llm) cd w))\<lparr>files := fs\<rparr>)"
proof (cases "user_input \<noteq> [] \<and> major \<noteq> []")
  case False
  then show ?thesis by (auto simp add: handle_input_def)
next
  case True
  obtain r1 w1 where a: "append_user_turn user_input w = (r1, w1)"
    by (cases "append_user_turn user_input w")
  then have a': "append_user_turn user_input (w\<lparr>files := fs\<rparr>) = (r1, w1\<lparr>files := fs\<rparr>)"
    by (simp add: append_user_turn_files_upd)
  show ?thesis
  proof (cases r1)
    case (Inl e)
    with True a a' show ?thesis by (simp add: handle_input_def)
  next
    case (Inr u)
    obtain r2 w2 where b: "chatbot_response user_input major (runnable_with_history repr llm)
        cd None w1 = (r2, w2)"
      by (cases "chatbot_response user_input major (runnable_with_history repr llm) cd None w1")
    then have b': "chatbot_response user_input major (runnable_with_history repr llm)
        cd None (w1\<lparr>files := fs\<rparr>) = (r2, w2\<lparr>files := fs\<rparr>)"
      by (simp add: chatbot_response_files_upd)
    show ?thesis
    proof (cases r2)
      case (Inl e)
      with True a a' Inr b b' show ?thesis
        by (cases e) (simp add: handle_input_def emit_files_upd)
    next
      case r: (Inr response)
      obtain r3 w3 where c: "append_turn \<lparr>role = ''assistant'', content = response\<rparr>
          (emit (ChatMessage ''assistant'' response) w2) = (r3, w3)"
        by (cases "append_turn \<lparr>role = ''assistant'', content = response\<rparr>
          (emit (ChatMessage ''assistant'' response) w2)")
      then have c': "append_turn \<lparr>role = ''assistant'', content = response\<rparr>
          (emit (ChatMessage ''assistant'' response) (w2\<lparr>files := fs\<rparr>)) = (r3, w3\<lparr>files := fs\<rparr>)"
        by (simp add: emit_files_upd append_turn_files_upd)
      from True a a' Inr b b' r c c' show ?thesis
        by (cases r3) (simp_all add: handle_input_def emit_files_upd split: exn.splits)
    qed
  qed
qed

lemma handle_input_files:
  "files (snd (handle_input user_input major (runnable_with_history repr llm) cd w)) = files w"
proof (cases "user_input \<noteq> [] \<and> major \<noteq> []")
  case False
  then show ?thesis by (auto simp add: handle_input_def)
next
  case True
  obtain r1 w1 where a: "append_user_turn user_input w = (r1, w1)"
    by (cases "append_user_turn user_input w")
  have "files (snd (append_user_turn user_input w)) = files w"
    by (simp add: append_user_turn_def append_turn_fields)
  with a have s1: "files w1 = files w" by simp
  show ?thesis
  proof (cases r1)
    case (Inl e)
    with True a s1 show ?thesis by (simp add: handle_input_def)
  next
    case (Inr u)
    obtain r2 w2 where b: "chatbot_response user_input major (runnable_with_history repr llm)
        cd None w1 = (r2, w2)"
      by (cases "chatbot_response user_input major (runnable_with_history repr llm) cd None w1")
    have "files (snd (chatbot_response user_input major (runnable_with_history repr llm)
        cd None w1)) = files w1"
      by (simp only: chatbot_response_default chatbot_response_fields)
    with b have s2: "files w2 = files w1" by simp
    show ?thesis
    proof (cases r2)
      case (Inl e)
      with True a Inr b s1 s2 show ?thesis
        by (cases e) (simp add: handle_input_def)
    next
      case r: (Inr response)
      obtain r3 w3 where c: "append_turn \<lparr>role = ''assistant'', content = response\<rparr>
          (emit (ChatMessage ''assistant'' response) w2) = (r3, w3)"
        by (cases "append_turn \<lparr>role = ''assistant'', content = response\<rparr>
          (emit (ChatMessage ''assistant'' response) w2)")
      have "files (snd (append_turn \<lparr>role = ''assistant'', content = response\<rparr>
          (emit (ChatMessage ''assistant'' response) w2))) = files w2"
        by (simp add: append_turn_fields)
      with c have s3: "files w3 = files w2" by simp
      from True a Inr b r c s1 s2 s3 show ?thesis
        by (cases r3) (simp_all add: handle_input_def split: exn.splits)
    qed
  qed
qed

lemma main_files:
  "files (snd (main ChatGoogleGenerativeAI repr inp w)) = files w"
proof -
  let ?w3 = "(emit (Write ''Enter your academic major and ask for career advice!'')
                 (emit (Title ''AI Career Guidance Chatbot for Undergraduates'') w))
              \<lparr>session_state := init_messages (session_state w)\<rparr>"
  obtain r4 w4 where a: "resolve_api_key inp ?w3 = (r4, w4)"
    by (cases "resolve_api_key inp ?w3")
  have "files (snd (resolve_api_key inp ?w3)) = files ?w3"
    by (rule resolve_api_key_fields)
  with a have s4: "files w4 = files w" by simp
  show ?thesis
  proof (cases r4)
    case None
    with a s4 show ?thesis by (simp add: main_unfold)
  next
    case (Some api_key)
    show ?thesis
    proof (cases "ChatGoogleGenerativeAI ''gemini-1.5-flash'' api_key")
      case (Inl e)
      with a Some s4 show ?thesis by (cases e) (simp add: main_unfold)
    next
      case (Inr llm)
      let ?w6 = "emit (TextInput ''Ask a career-related question:'')
                          (emit (TextInput
                             ''Enter your academic major (e.g., Computer Science, Business, Biology):'')
                             w4)"
      obtain r7 w7 where b: "display_history ?w6 = (r7, w7)"
        by (cases "display_history ?w6")
      have "files (snd (display_history ?w6)) = files ?w6"
        by (rule display_history_fields)
      with b have s7: "files w7 = files w4" by simp
      show ?thesis
      proof (cases r7)
        case (Inl e)
        with a Some Inr b s4 s7 show ?thesis by (simp add: main_unfold)
      next
        case u: (Inr u)
        have "files (snd (handle_input (question_field inp) (major_field inp)
                      (runnable_with_history repr llm) load_career_data w7))
            = files w7"
          by (rule handle_input_files)
        with a Some Inr b u s4 s7 show ?thesis by (simp add: main_unfold)
      qed
    qed
  qed
qed

lemma main_files_upd:
  "main ChatGoogleGenerativeAI repr inp (w\<lparr>files := fs\<rparr>)
   = (fst (main ChatGoogleGenerativeAI repr inp w),
      (snd (main ChatGoogleGenerativeAI repr inp w))\<lparr>files := fs\<rparr>)"
proof -
  let ?w3 = "(emit (Write ''Enter your academic major and ask for career advice!'')
                 (emit (Title ''AI Career Guidance Chatbot for Undergraduates'') w))
              \<lparr>session_state := init_messages (session_state w)\<rparr>"
  have w3: "(emit (Write ''Enter your academic major and ask for career advice!'')
                 (emit (Title ''AI Career Guidance Chatbot for Undergraduates'') (w\<lparr>files := fs\<rparr>)))
              \<lparr>session_state := init_messages (session_state (w\<lparr>files := fs\<rparr>))\<rparr>
            = ?w3\<lparr>files := fs\<rparr>"
    by (cases w) (simp add: emit_def)
  obtain r4 w4 where a: "resolve_api_key inp ?w3 = (r4, w4)"
    by (cases "resolve_api_key inp ?w3")
  then have a': "resolve_api_key inp (?w3\<lparr>files := fs\<rparr>) = (r4, w4\<lparr>files := fs\<rparr>)"
    by (simp add: resolve_api_key_files_upd)
  show ?thesis
  proof (cases r4)
    case None
    with a a' show ?thesis by (simp only: main_unfold w3) simp
  next
    case (Some api_key)
    show ?thesis
    proof (cases "ChatGoogleGenerativeAI ''gemini-1.5-flash'' api_key")
      case (Inl e)
      with a a' Some show ?thesis
        by (cases e) (simp only: main_unfold w3, simp add: emit_files_upd)
    next
      case (Inr llm)
      let ?w6 = "emit (TextInput ''Ask a career-related question:'')
                          (emit (TextInput
                             ''Enter your academic major (e.g., Computer Science, Business, Biology):'')
                             w4)"
      obtain r7 w7 where b: "display_history ?w6 = (r7, w7)"
        by (cases "display_history ?w6")
      then have b': "display_history (emit (TextInput ''Ask a career-related question:'')
                          (emit (TextInput
                             ''Enter your academic major (e.g., Computer Science, Business, Biology):'')
                             (w4\<lparr>files := fs\<rparr>))) = (r7, w7\<lparr>files := fs\<rparr>)"
        by (simp add: emit_files_upd display_history_files_upd)
      show ?thesis
      proof (cases r7)
        case (Inl e)
        with a a' Some Inr b b' show ?thesis by (simp only: main_unfold w3) simp
      next
        case u: (Inr u)
        with a a' Some Inr b b' show ?thesis
          by (simp only: main_unfold w3) (simp add: handle_input_files_upd)
      qed
    qed
  qed
qed

lemma script_with_env_file:
  assumes "fs ''.env'' = Some [''GOOGLE_API_KEY'' \<mapsto> ''k'']"
  shows "calls (snd (script (\<lambda>model key. Inr (\<lambda>p. Inr ''ok'')) (\<lambda>ms. [])
       \<lparr>api_key_field = [], major_field = ''Biology'', question_field = ''Hi''\<rparr>
       \<lparr>files = fs, environ = Map.empty, session_state = Map.empty, ui = [], calls = []\<rparr>))
     = [expected_prompt (\<lambda>ms. []) load_career_data ''Biology'' ''Hi'' []]"
proof -
  let ?w7 = "\<lparr>files = fs, environ = [''GOOGLE_API_KEY'' \<mapsto> ''k''],
       session_state = [''messages'' \<mapsto> PyList []],
       ui = [Title ''AI Career Guidance Chatbot for Undergraduates'',
             Write ''Enter your academic major and ask for career advice!'',
             TextInput ''Enter your academic major (e.g., Computer Science, Business, Biology):'',
             TextInput ''Ask a career-related question:''],
       calls = []\<rparr> :: world"
  have m: "script (\<lambda>model key. Inr (\<lambda>p. Inr ''ok'')) (\<lambda>ms. [])
       \<lparr>api_key_field = [], major_field = ''Biology'', question_field = ''Hi''\<rparr>
       \<lparr>files = fs, environ = Map.empty, session_state = Map.empty, ui = [], calls = []\<rparr>
     = handle_input ''Hi'' ''Biology'' (runnable_with_history (\<lambda>ms. []) (\<lambda>p. Inr ''ok''))
         load_career_data ?w7"
    using assms
    by (simp add: script_def load_dotenv_def main_unfold resolve_api_key_def
        display_history_def init_messages_def emit_def Let_def)
  have a: "''Hi'' \<noteq> []" and b: "''Biology'' \<noteq> []" by simp_all
  have c: "session_state ?w7 ''messages'' = Some (PyList [])" by simp
  have d: "case session_state ?w7 ''default'' of Some (PyList xs) \<Rightarrow> False | _ \<Rightarrow> True"
    by simp
  have h: "history ''default'' (session_state ?w7) = []" by (simp add: history_def)
  have e: "(\<lambda>p. Inr ''ok'' :: exn + string)
       (expected_prompt (\<lambda>ms. []) load_career_data ''Biology'' ''Hi''
          (history ''default'' (session_state ?w7))) = Inr ''ok''"
    by simp
  show ?thesis
    by (simp only: m handle_input_model_replies [OF a b c d e] h snd_conv) simp
qed

lemma script_without_env_file:
  "script (\<lambda>model key. Inr (\<lambda>p. Inr ''ok'')) (\<lambda>ms. [])
       \<lparr>api_key_field = [], major_field = ''Biology'', question_field = ''Hi''\<rparr>
       \<lparr>files = Map.empty, environ = Map.empty, session_state = Map.empty,
       ui = [], calls = []\<rparr>
   = (Inr (),
      \<lparr>files = Map.empty, environ = Map.empty,
       session_state = [''messages'' \<mapsto> PyList []],
       ui = [Title ''AI Career Guidance Chatbot for Undergraduates'',
             Write ''Enter your academic major and ask for career advice!'',
             Error ''Gemini API key not found in .env file. Please enter it below.'',
             TextInput ''Enter your Gemini API key:'',
             Error ''Gemini API key is required to proceed.''],
       calls = []\<rparr>)"
  by (simp add: script_def load_dotenv_def main_unfold resolve_api_key_def
      init_messages_def emit_def)

text \<open>
  C8, as amended. The program reads one file: \<open>load_dotenv()\<close>, called when the module
  is loaded, reads the \<open>.env\<close> file. It reads no other file: a run is the same, files
  apart, in any two worlds whose \<open>.env\<close> files agree. It writes no file: the files after
  a run are the files before it. So nothing of what a run stores, which is all in the
  session state and the environment of the process, is there after a restart.
\<close>

theorem script_reads_only_env_file:
  "files (snd (script ChatGoogleGenerativeAI repr inp w)) = files w
   \<and> (fs ''.env'' = files w ''.env'' \<longrightarrow>
        script ChatGoogleGenerativeAI repr inp (w\<lparr>files := fs\<rparr>)
        = (fst (script ChatGoogleGenerativeAI repr inp w),
           (snd (script ChatGoogleGenerativeAI repr inp w))\<lparr>files := fs\<rparr>))"
proof (intro conjI impI)
  show "files (snd (script ChatGoogleGenerativeAI repr inp w)) = files w"
    by (simp add: script_def main_files load_dotenv_files)
next
  assume "fs ''.env'' = files w ''.env''"
  then show "script ChatGoogleGenerativeAI repr inp (w\<lparr>files := fs\<rparr>)
        = (fst (script ChatGoogleGenerativeAI repr inp w),
           (snd (script ChatGoogleGenerativeAI repr inp w))\<lparr>files := fs\<rparr>)"
    by (simp add: script_def load_dotenv_files_upd main_files_upd)
qed

theorem script_reads_only_env_file_witness:
  "calls (snd (script (\<lambda>model key. Inr (\<lambda>p. Inr ''ok'')) (\<lambda>ms. [])
       \<lparr>api_key_field = [], major_field = ''Biology'', question_field = ''Hi''\<rparr>
       \<lparr>files = [''.env'' \<mapsto> [''GOOGLE_API_KEY'' \<mapsto> ''k''], ''notes.txt'' \<mapsto> [''A'' \<mapsto> ''b'']], environ = Map.empty, session_state = Map.empty,
       ui = [], calls = []\<rparr>))
   = [expected_prompt (\<lambda>ms. []) load_career_data ''Biology'' ''Hi'' []]
   \<and> files (snd (script (\<lambda>model key. Inr (\<lambda>p. Inr ''ok'')) (\<lambda>ms. [])
       \<lparr>api_key_field = [], major_field = ''Biology'', question_field = ''Hi''\<rparr>
       \<lparr>files = [''.env'' \<mapsto> [''GOOGLE_API_KEY'' \<mapsto> ''k''], ''notes.txt'' \<mapsto> [''A'' \<mapsto> ''b'']], environ = Map.empty, session_state = Map.empty,
       ui = [], calls = []\<rparr>))
     = [''.env'' \<mapsto> [''GOOGLE_API_KEY'' \<mapsto> ''k''], ''notes.txt'' \<mapsto> [''A'' \<mapsto> ''b'']]"
proof -
  let ?w = "\<lparr>files = [''.env'' \<mapsto> [''GOOGLE_API_KEY'' \<mapsto> ''k'']], environ = Map.empty, session_state = Map.empty,
       ui = [], calls = []\<rparr> :: world"
  let ?fs = "[''.env'' \<mapsto> [''GOOGLE_API_KEY'' \<mapsto> ''k''], ''notes.txt'' \<mapsto> [''A'' \<mapsto> ''b'']]"
  have e: "?fs ''.env'' = files ?w ''.env''" by simp
  have c: "calls (snd (script (\<lambda>model key. Inr (\<lambda>p. Inr ''ok'')) (\<lambda>ms. [])
       \<lparr>api_key_field = [], major_field = ''Biology'', question_field = ''Hi''\<rparr> ?w))
     = [expected_prompt (\<lambda>ms. []) load_career_data ''Biology'' ''Hi'' []]"
    by (rule script_with_env_file) simp
  from script_reads_only_env_file [where fs = ?fs and w = ?w
      and ChatGoogleGenerativeAI = "\<lambda>model key. Inr (\<lambda>p. Inr ''ok'')" and repr = "\<lambda>ms. []"
      and inp = "\<lparr>api_key_field = [], major_field = ''Biology'', question_field = ''Hi''\<rparr>",
      THEN conjunct2, THEN mp, OF e] c
  show ?thesis by simp
qed

text \<open>
  The program does read a file. Two runs with the same inputs, in worlds that differ only
  in their files: with a \<open>.env\<close> file that binds the key, the model is called; with no
  file, the run ends at the missing key and the model is not called.
\<close>

theorem script_reads_env_file:
  "calls (snd (script (\<lambda>model key. Inr (\<lambda>p. Inr ''ok'')) (\<lambda>ms. [])
       \<lparr>api_key_field = [], major_field = ''Biology'', question_field = ''Hi''\<rparr>
       \<lparr>files = [''.env'' \<mapsto> [''GOOGLE_API_KEY'' \<mapsto> ''k'']], environ = Map.empty, session_state = Map.empty,
       ui = [], calls = []\<rparr>))
   = [expected_prompt (\<lambda>ms. []) load_career_data ''Biology'' ''Hi'' []]
   \<and> calls (snd (script (\<lambda>model key. Inr (\<lambda>p. Inr ''ok'')) (\<lambda>ms. [])
       \<lparr>api_key_field = [], major_field = ''Biology'', question_field = ''Hi''\<rparr>
       \<lparr>files = Map.empty, environ = Map.empty, session_state = Map.empty,
       ui = [], calls = []\<rparr>))
   = []"
proof (rule conjI)
  show "calls (snd (script (\<lambda>model key. Inr (\<lambda>p. Inr ''ok'')) (\<lambda>ms. [])
       \<lparr>api_key_field = [], major_field = ''Biology'', question_field = ''Hi''\<rparr>
       \<lparr>files = [''.env'' \<mapsto> [''GOOGLE_API_KEY'' \<mapsto> ''k'']], environ = Map.empty, session_state = Map.empty,
       ui = [], calls = []\<rparr>))
   = [expected_prompt (\<lambda>ms. []) load_career_data ''Biology'' ''Hi'' []]"
    by (rule script_with_env_file) simp
next
  show "calls (snd (script (\<lambda>model key. Inr (\<lambda>p. Inr ''ok'')) (\<lambda>ms. [])
       \<lparr>api_key_field = [], major_field = ''Biology'', question_field = ''Hi''\<rparr>
       \<lparr>files = Map.empty, environ = Map.empty, session_state = Map.empty,
       ui = [], calls = []\<rparr>))
   = []"
    by (simp only: script_without_env_file snd_conv) simp
qed


subsection \<open>Knowledge table\<close>

text \<open>
  C3. \<open>load_career_data\<close> has no inputs and no failure: it is a constant, the table of
  three majors with unique keys. For every major of the table, the careers, skills and
  resources lists exist and are non-empty.
\<close>

theorem load_career_data_nonempty:
  "map fst load_career_data = [''Computer Science'', ''Business'', ''Biology'']
   \<and> distinct (map fst load_career_data)
   \<and> (\<forall>(M, e) \<in> set load_career_data.
        nonempty_field e ''careers'' \<and> nonempty_field e ''skills''
        \<and> nonempty_field e ''resources'')"
  by (simp add: load_career_data_def nonempty_field_def field_def)

theorem load_career_data_nonempty_witness:
  "map_of load_career_data ''Biology'' \<noteq> None
   \<and> nonempty_field (the (map_of load_career_data ''Biology'')) ''careers''
   \<and> nonempty_field (the (map_of load_career_data ''Biology'')) ''skills''
   \<and> nonempty_field (the (map_of load_career_data ''Biology'')) ''resources''"
proof -
  have m: "(''Biology'', the (map_of load_career_data ''Biology'')) \<in> set load_career_data"
    by (simp add: load_career_data_def)
  have "map_of load_career_data ''Biology'' \<noteq> None"
    by (simp add: load_career_data_def)
  with load_career_data_nonempty m show ?thesis
    by blast
qed

end
